theory Spec2Isabelle
  imports Main
begin

section \<open>The store: tables of db.py\<close>

text \<open>
  The persistent store is a set of four tables reached through equality filters. Each
  table is a list of rows in storage order; the first row of a response is the first
  matching row of the list. Ids, contact numbers, timestamps and statuses are the strings
  that the code sends and compares. A column that may be NULL is an option.
\<close>

record user_row =
  u_id :: string
  u_contact_number :: string
  u_name :: "string option"
  u_email :: "string option"

record appointment_row =
  a_id :: string
  a_contact_number :: string
  a_appointment_time :: string
  a_details :: "string option"
  a_status :: string
  a_created_at :: "string option"

record session_row =
  s_session_id :: string
  s_user_id :: "string option"

record message_row =
  m_user_id :: string
  m_role :: string
  m_content :: string

record db =
  users :: "user_row list"
  appointments :: "appointment_row list"
  session_memory :: "session_row list"
  messages :: "message_row list"

text \<open>The dictionaries that \<open>get_appointments\<close> builds from appointment rows.\<close>

record appointment_view =
  v_id :: string
  v_start_time :: string
  v_status :: string
  v_details :: "string option"
  v_created_at :: "string option"

subsection \<open>Python helpers\<close>

text \<open>\<open>response.data[0] if response.data else None\<close>.\<close>

definition first_row :: "'a list \<Rightarrow> 'a option" where
  "first_row rows = (case rows of [] \<Rightarrow> None | r # _ \<Rightarrow> Some r)"

text \<open>Truth value of an optional string: \<open>None\<close> and the empty string are false.\<close>

definition truthy :: "string option \<Rightarrow> bool" where
  "truthy v = (case v of None \<Rightarrow> False | Some s \<Rightarrow> s \<noteq> [])"

text \<open>\<open>str\<close> of an integer, as an f-string prints it.\<close>

definition digit_char :: "nat \<Rightarrow> char" where
  "digit_char d = char_of (48 + d)"

fun str_nat :: "nat \<Rightarrow> string" where
  "str_nat n = (if n < 10 then [digit_char n] else str_nat (n div 10) @ [digit_char (n mod 10)])"

declare str_nat.simps [simp del]

definition str_int :: "int \<Rightarrow> string" where
  "str_int i = (if i < 0 then CHR ''-'' # str_nat (nat (- i)) else str_nat (nat i))"

text \<open>An f-string prints a NULL column as \<open>None\<close>.\<close>

definition fmt_opt :: "string option \<Rightarrow> string" where
  "fmt_opt v = (case v of None \<Rightarrow> ''None'' | Some s \<Rightarrow> s)"

subsection \<open>Users\<close>

definition get_user_by_contact :: "db \<Rightarrow> string \<Rightarrow> user_row option" where
  "get_user_by_contact d contact_number =
     first_row (filter (\<lambda>u. u_contact_number u = contact_number) (users d))"

definition get_user_by_email :: "db \<Rightarrow> string \<Rightarrow> user_row option" where
  "get_user_by_email d email =
     first_row (filter (\<lambda>u. u_email u = Some email) (users d))"

definition get_user_by_contact_or_email :: "db \<Rightarrow> string \<Rightarrow> user_row option" where
  "get_user_by_contact_or_email d identifier =
     (case get_user_by_contact d identifier of
        Some u \<Rightarrow> Some u
      | None \<Rightarrow> get_user_by_email d identifier)"

text \<open>
  An insert is answered by the store. The answer is a parameter of the model: \<open>Some i\<close>
  when the store inserted the row and gave it the id \<open>i\<close>, \<open>None\<close> when the response
  carries no row. \<open>create_user\<close> leaves the email column out when \<open>email\<close> is false.
\<close>

definition create_user ::
  "db \<Rightarrow> string option \<Rightarrow> string \<Rightarrow> string option \<Rightarrow> string option \<Rightarrow> user_row option \<times> db" where
  "create_user d answer contact_number name email =
     (case answer of
        None \<Rightarrow> (None, d)
      | Some i \<Rightarrow>
          (let row = \<lparr>u_id = i, u_contact_number = contact_number, u_name = name,
                      u_email = (if truthy email then email else None)\<rparr>
           in (Some row, d\<lparr>users := users d @ [row]\<rparr>)))"

definition get_user_by_id :: "db \<Rightarrow> string \<Rightarrow> user_row option" where
  "get_user_by_id d user_id = first_row (filter (\<lambda>u. u_id u = user_id) (users d))"

subsection \<open>Appointments\<close>

definition view_of :: "appointment_row \<Rightarrow> appointment_view" where
  "view_of appt =
     \<lparr>v_id = a_id appt, v_start_time = a_appointment_time appt, v_status = a_status appt,
      v_details = a_details appt, v_created_at = a_created_at appt\<rparr>"

definition get_appointments :: "db \<Rightarrow> string \<Rightarrow> appointment_view list" where
  "get_appointments d user_id =
     (case get_user_by_id d user_id of
        None \<Rightarrow> []
      | Some user \<Rightarrow>
          map view_of
            (filter (\<lambda>a. a_contact_number a = u_contact_number user \<and> a_status a = ''booked'')
               (appointments d)))"

definition create_appointment ::
  "db \<Rightarrow> string option \<Rightarrow> string \<Rightarrow> string \<Rightarrow> int \<Rightarrow> string option
     \<Rightarrow> appointment_row option \<times> db" where
  "create_appointment d answer user_id start_time duration_mins summary =
     (case get_user_by_id d user_id of
        None \<Rightarrow> (None, d)
      | Some user \<Rightarrow>
          (let details_text =
                 (if truthy summary then fmt_opt summary
                  else str_int duration_mins @ '' minute appointment'')
           in case answer of
                None \<Rightarrow> (None, d)
              | Some i \<Rightarrow>
                  (let row = \<lparr>a_id = i, a_contact_number = u_contact_number user,
                              a_appointment_time = start_time, a_details = Some details_text,
                              a_status = ''booked'', a_created_at = None\<rparr>
                   in (Some row, d\<lparr>appointments := appointments d @ [row]\<rparr>))))"

text \<open>
  An update patches every row that passes the filter, in place, and answers with the
  patched rows.
\<close>

definition reschedule_row :: "string \<Rightarrow> string \<Rightarrow> appointment_row \<Rightarrow> appointment_row" where
  "reschedule_row appointment_id new_time a =
     (if a_id a = appointment_id \<and> a_status a = ''booked''
      then a\<lparr>a_appointment_time := new_time\<rparr> else a)"

definition reschedule_appointment ::
  "db \<Rightarrow> string \<Rightarrow> string \<Rightarrow> appointment_row option \<times> db" where
  "reschedule_appointment d appointment_id new_time =
     (let hit = filter (\<lambda>a. a_id a = appointment_id \<and> a_status a = ''booked'') (appointments d)
      in (first_row (map (\<lambda>a. a\<lparr>a_appointment_time := new_time\<rparr>) hit),
          d\<lparr>appointments := map (reschedule_row appointment_id new_time) (appointments d)\<rparr>))"

definition cancel_row :: "string \<Rightarrow> appointment_row \<Rightarrow> appointment_row" where
  "cancel_row appointment_id a =
     (if a_id a = appointment_id then a\<lparr>a_status := ''cancelled''\<rparr> else a)"

definition cancel_appointment :: "db \<Rightarrow> string \<Rightarrow> appointment_row list \<times> db" where
  "cancel_appointment d appointment_id =
     (let hit = filter (\<lambda>a. a_id a = appointment_id) (appointments d)
      in (map (\<lambda>a. a\<lparr>a_status := ''cancelled''\<rparr>) hit,
          d\<lparr>appointments := map (cancel_row appointment_id) (appointments d)\<rparr>))"

definition check_availability :: "db \<Rightarrow> string \<Rightarrow> string \<Rightarrow> bool" where
  "check_availability d date time_slot =
     (let datetime_str = date @ ''T'' @ time_slot @ '':00'';
          rows = filter (\<lambda>a. a_appointment_time a = datetime_str \<and> a_status a = ''booked'')
                   (appointments d)
      in length rows = 0)"

subsection \<open>Messages and sessions\<close>

definition save_message :: "db \<Rightarrow> string \<Rightarrow> string \<Rightarrow> string \<Rightarrow> db" where
  "save_message d user_id role content =
     d\<lparr>messages := messages d @ [\<lparr>m_user_id = user_id, m_role = role, m_content = content\<rparr>]\<rparr>"

text \<open>The upsert of \<open>create_session\<close> overwrites a row with the same session id.\<close>

definition create_session :: "db \<Rightarrow> string \<Rightarrow> session_row option \<times> db" where
  "create_session d session_id =
     (let row = \<lparr>s_session_id = session_id, s_user_id = None\<rparr>
      in (Some row,
          if \<exists>s \<in> set (session_memory d). s_session_id s = session_id
          then d\<lparr>session_memory :=
                   map (\<lambda>s. if s_session_id s = session_id then row else s) (session_memory d)\<rparr>
          else d\<lparr>session_memory := session_memory d @ [row]\<rparr>))"

definition bind_row :: "string \<Rightarrow> string \<Rightarrow> session_row \<Rightarrow> session_row" where
  "bind_row session_id user_id s =
     (if s_session_id s = session_id then s\<lparr>s_user_id := Some user_id\<rparr> else s)"

definition update_session_user :: "db \<Rightarrow> string \<Rightarrow> string \<Rightarrow> session_row option \<times> db" where
  "update_session_user d session_id user_id =
     (let hit = filter (\<lambda>s. s_session_id s = session_id) (session_memory d)
      in (first_row (map (\<lambda>s. s\<lparr>s_user_id := Some user_id\<rparr>) hit),
          d\<lparr>session_memory := map (bind_row session_id user_id) (session_memory d)\<rparr>))"

definition get_session :: "db \<Rightarrow> string \<Rightarrow> session_row option" where
  "get_session d session_id =
     first_row (filter (\<lambda>s. s_session_id s = session_id) (session_memory d))"

definition delete_session :: "db \<Rightarrow> string \<Rightarrow> session_row list \<times> db" where
  "delete_session d session_id =
     (filter (\<lambda>s. s_session_id s = session_id) (session_memory d),
      d\<lparr>session_memory := filter (\<lambda>s. s_session_id s \<noteq> session_id) (session_memory d)\<rparr>)"

section \<open>The chat context of agent.py\<close>

text \<open>
  \<open>PersistentChatContext\<close> keeps the turns of the conversation and the id of the user
  whose messages are logged. \<open>add_message\<close> always adds the turn to the context, and
  hands it to \<open>save_message\<close> when \<open>user_id\<close> is true. The source does so in a task
  of its own, which is taken here as the write that the task performs.
\<close>

record chat_context =
  c_items :: "(string \<times> string) list"
  c_user_id :: "string option"

definition new_chat_context :: chat_context where
  "new_chat_context = \<lparr>c_items = [], c_user_id = None\<rparr>"

definition add_message :: "chat_context \<Rightarrow> db \<Rightarrow> string \<Rightarrow> string \<Rightarrow> chat_context \<times> db" where
  "add_message ctx d role content =
     (let ctx' = ctx\<lparr>c_items := c_items ctx @ [(role, content)]\<rparr>
      in if truthy (c_user_id ctx)
         then (ctx', save_message d (fmt_opt (c_user_id ctx)) role content)
         else (ctx', d))"

definition set_user_id :: "string \<Rightarrow> chat_context \<Rightarrow> chat_context" where
  "set_user_id user_id ctx = ctx\<lparr>c_user_id := Some user_id\<rparr>"

definition load_messages :: "chat_context \<Rightarrow> (string \<times> string) list \<Rightarrow> chat_context" where
  "load_messages ctx ms = ctx\<lparr>c_items := c_items ctx @ ms\<rparr>"

section \<open>The tools of tools.py\<close>

text \<open>
  The state of an \<open>AgentTools\<close> object: the identified user, whether there is a room, the
  chat context it shares with the agent, the session id, and the payloads it has
  published to the room so far. Every tool takes the object and the store and returns
  its reply with the new object and the new store.
\<close>

record agent_tools =
  t_user :: "user_row option"
  t_room :: bool
  t_chat_ctx :: "chat_context option"
  t_session_id :: string
  t_published :: "string list"

definition new_agent_tools :: "bool \<Rightarrow> chat_context option \<Rightarrow> string \<Rightarrow> agent_tools" where
  "new_agent_tools room chat_ctx session_id =
     \<lparr>t_user = None, t_room = room, t_chat_ctx = chat_ctx, t_session_id = session_id,
      t_published = []\<rparr>"

definition dq :: string where
  "dq = [CHR 0x22]"

definition emit_event :: "agent_tools \<Rightarrow> string \<Rightarrow> string \<Rightarrow> agent_tools" where
  "emit_event t event_type message =
     (if t_room t
      then t\<lparr>t_published := t_published t @
               [''{'' @ dq @ ''type'' @ dq @ '': '' @ dq @ event_type @ dq @ '', '' @
                dq @ ''message'' @ dq @ '': '' @ dq @ message @ dq @ ''}'']\<rparr>
      else t)"

definition tag_chat_ctx :: "agent_tools \<Rightarrow> string \<Rightarrow> agent_tools" where
  "tag_chat_ctx t user_id = t\<lparr>t_chat_ctx := map_option (set_user_id user_id) (t_chat_ctx t)\<rparr>"

definition identify_user :: "agent_tools \<Rightarrow> db \<Rightarrow> string \<Rightarrow> string \<times> agent_tools \<times> db" where
  "identify_user t d identifier =
     (let t1 = emit_event t ''tool_call'' (''Identifying user: '' @ identifier)
      in case get_user_by_contact_or_email d identifier of
           None \<Rightarrow>
             (''No user found with identifier '' @ identifier @
                ''. The user needs to create an account first.'',
              emit_event t1 ''tool_result'' ''User not found in system'', d)
         | Some user \<Rightarrow>
             (let t2 = t1\<lparr>t_user := Some user\<rparr>;
                  d' = snd (update_session_user d (t_session_id t2) (u_id user));
                  t3 = tag_chat_ctx t2 (u_id user);
                  msg = ''User identified: '' @ fmt_opt (u_name user) @ '' (ID: '' @
                        u_id user @ '').''
              in (msg, emit_event t3 ''tool_result'' msg, d')))"

definition create_user_account ::
  "agent_tools \<Rightarrow> db \<Rightarrow> string option \<Rightarrow> string \<Rightarrow> string \<Rightarrow> string \<Rightarrow> string
     \<Rightarrow> string \<times> agent_tools \<times> db" where
  "create_user_account t d answer contact_number first_name last_name email =
     (let t1 = emit_event t ''tool_call''
                 (''Creating user account for '' @ first_name @ '' '' @ last_name);
          full_name = first_name @ '' '' @ last_name;
          (user, d') = create_user d answer contact_number (Some full_name) (Some email)
      in case user of
           Some u \<Rightarrow>
             (let t2 = t1\<lparr>t_user := Some u\<rparr>;
                  t3 = tag_chat_ctx t2 (u_id u)
              in (''Account created successfully! Welcome '' @ full_name @
                    ''. Your information has been securely saved.'',
                  emit_event t3 ''tool_result''
                    (''Account created successfully for '' @ full_name), d'))
         | None \<Rightarrow>
             (''I'm sorry, there was an error creating your account. Please try again.'',
              emit_event t1 ''tool_result'' ''Failed to create account'', d'))"

definition check_time_slot_availability ::
  "agent_tools \<Rightarrow> db \<Rightarrow> string \<Rightarrow> string \<Rightarrow> string \<times> agent_tools \<times> db" where
  "check_time_slot_availability t d date time =
     (let t1 = emit_event t ''tool_call''
                 (''Checking availability for '' @ date @ '' at '' @ time)
      in if check_availability d date time
         then (''Good news! The time slot on '' @ date @ '' at '' @ time @ '' is available.'',
               t1, d)
         else (''I'm sorry, the time slot on '' @ date @ '' at '' @ time @
                 '' is already booked. Would you like to try a different time?'', t1, d))"

definition slots_reply :: string where
  "slots_reply =
     ''Available slots: Tomorrow at 10:00 AM, Tomorrow at 2:00 PM, and Friday at 11:00 AM.''"

definition fetch_slots :: "agent_tools \<Rightarrow> db \<Rightarrow> string \<times> agent_tools \<times> db" where
  "fetch_slots t d = (slots_reply, emit_event t ''tool_call'' ''Fetching available slots'', d)"

definition book_appointment ::
  "agent_tools \<Rightarrow> db \<Rightarrow> string option \<Rightarrow> string \<Rightarrow> int \<Rightarrow> string \<times> agent_tools \<times> db" where
  "book_appointment t d answer start_time duration =
     (case t_user t of
        None \<Rightarrow> (''Please identify the user first before booking.'', t, d)
      | Some user \<Rightarrow>
          (let t1 = emit_event t ''tool_call'' (''Booking appointment at '' @ start_time);
               (appt, d') = create_appointment d answer (u_id user) start_time duration None
           in case appt of
                Some _ \<Rightarrow>
                  (''Appointment booked successfully for '' @ start_time @ ''.'',
                   emit_event t1 ''tool_result'' ''Appointment booked successfully'', d')
              | None \<Rightarrow> (''Failed to book appointment.'', t1, d')))"

text \<open>\<open>any(appt['id'] == appointment_id for appt in user_appointments)\<close>.\<close>

definition appointment_exists :: "appointment_view list \<Rightarrow> string \<Rightarrow> bool" where
  "appointment_exists user_appointments appointment_id =
     (\<exists>appt \<in> set user_appointments. v_id appt = appointment_id)"

definition reschedule_not_found :: string where
  "reschedule_not_found =
     ''I couldn't find that appointment. Please check your appointments and try again.''"

definition reschedule_user_appointment ::
  "agent_tools \<Rightarrow> db \<Rightarrow> string \<Rightarrow> string \<Rightarrow> string \<times> agent_tools \<times> db" where
  "reschedule_user_appointment t d appointment_id new_time =
     (case t_user t of
        None \<Rightarrow> (''Please identify the user first before rescheduling.'', t, d)
      | Some user \<Rightarrow>
          (let t1 = emit_event t ''tool_call''
                      (''Rescheduling appointment '' @ appointment_id @ '' to '' @ new_time);
               user_appointments = get_appointments d (u_id user)
           in if \<not> appointment_exists user_appointments appointment_id
              then (reschedule_not_found, t1, d)
              else
                (let (result, d') = reschedule_appointment d appointment_id new_time
                 in case result of
                      Some _ \<Rightarrow>
                        (''Your appointment has been rescheduled to '' @ new_time @ ''.'',
                         emit_event t1 ''tool_result'' ''Appointment rescheduled successfully'',
                         d')
                    | None \<Rightarrow>
                        (''I'm sorry, there was an error rescheduling your appointment. '' @
                         ''Please try again.'', t1, d'))))"

fun join :: "string \<Rightarrow> string list \<Rightarrow> string" where
  "join sep [] = []"
| "join sep [x] = x"
| "join sep (x # y # ys) = x @ sep @ join sep (y # ys)"

definition retrieve_appointments :: "agent_tools \<Rightarrow> db \<Rightarrow> string \<times> agent_tools \<times> db" where
  "retrieve_appointments t d =
     (case t_user t of
        None \<Rightarrow> (''Please identify the user first.'', t, d)
      | Some user \<Rightarrow>
          (let t1 = emit_event t ''tool_call'' ''Retrieving appointments'';
               appts = get_appointments d (u_id user)
           in if appts = [] then (''No active appointments found.'', t1, d)
              else
                (let summary =
                       join [CHR 0x0A]
                         (map (\<lambda>a. ''- Appointment on '' @ v_start_time a @ '' - '' @
                                    fmt_opt (v_details a) @ '' (ID: '' @ v_id a @ '')'') appts);
                     n = str_int (int (length appts))
                 in (''Found '' @ n @ '' active appointment(s):'' @ [CHR 0x0A] @ summary,
                     emit_event t1 ''tool_result'' (''Found '' @ n @ '' appointments''), d))))"

definition cancel_not_found :: string where
  "cancel_not_found =
     ''I couldn't find an active appointment with that ID. '' @
     ''Please check your appointments and try again.''"

definition cancel_user_appointment ::
  "agent_tools \<Rightarrow> db \<Rightarrow> string \<Rightarrow> string \<times> agent_tools \<times> db" where
  "cancel_user_appointment t d appointment_id =
     (case t_user t of
        None \<Rightarrow> (''Please identify the user first before canceling an appointment.'', t, d)
      | Some user \<Rightarrow>
          (let t1 = emit_event t ''tool_call'' (''Canceling appointment '' @ appointment_id);
               user_appointments = get_appointments d (u_id user)
           in if \<not> appointment_exists user_appointments appointment_id
              then (cancel_not_found, t1, d)
              else
                (let (result, d') = cancel_appointment d appointment_id
                 in if result \<noteq> []
                    then (''Your appointment has been cancelled successfully. '' @
                          ''Is there anything else I can help you with?'',
                          emit_event t1 ''tool_result'' ''Appointment cancelled successfully'',
                          d')
                    else (''I'm sorry, there was an error cancelling your appointment. '' @
                          ''Please try again or contact support.'', t1, d'))))"

section \<open>Calls within a session\<close>

text \<open>
  \<open>entrypoint\<close> opens a session by creating its row, a chat context that holds the system
  message, and the tools object, which gets the same context as the agent. Its system
  instructions depend on the clock and are a parameter here.
\<close>

definition start_session :: "bool \<Rightarrow> string \<Rightarrow> string \<Rightarrow> db \<Rightarrow> agent_tools \<times> db" where
  "start_session room session_id system_instructions d =
     (let d1 = snd (create_session d session_id);
          (initial_ctx, d2) = add_message new_chat_context d1 ''system'' system_instructions
      in (new_agent_tools room (Some initial_ctx) session_id, d2))"

text \<open>
  A turn of the conversation is added to the context that the agent and the tools object
  share. A tools object built without a context shares none: the context of the agent is
  then never given a user id, and its turns leave the store as it is.
\<close>

definition add_turn :: "agent_tools \<Rightarrow> db \<Rightarrow> string \<Rightarrow> string \<Rightarrow> agent_tools \<times> db" where
  "add_turn t d role content =
     (case t_chat_ctx t of
        None \<Rightarrow> (t, d)
      | Some ctx \<Rightarrow>
          (let (ctx', d') = add_message ctx d role content
           in (t\<lparr>t_chat_ctx := Some ctx'\<rparr>, d')))"

text \<open>
  What can happen in a session between its start and its end: the calls of the tools, in
  any order and any number of times, and the turns added to the conversation. A call that
  inserts carries the answer of the store to the insert. The three verify tools format
  their argument and read and write neither the tools object nor the store.
\<close>

datatype session_call =
  Identify string
| Enroll "string option" string string string string
| VerifyMobileNumber string
| VerifyNameSpelling string
| VerifyEmailSpelling string
| CheckTimeSlot string string
| FetchSlots
| Book "string option" string int
| Reschedule string string
| Retrieve
| Cancel string
| AddTurn string string

fun session_step :: "session_call \<Rightarrow> agent_tools \<times> db \<Rightarrow> agent_tools \<times> db" where
  "session_step (Identify identifier) (t, d) = snd (identify_user t d identifier)"
| "session_step (Enroll answer contact_number first_name last_name email) (t, d) =
     snd (create_user_account t d answer contact_number first_name last_name email)"
| "session_step (VerifyMobileNumber mobile_number) (t, d) = (t, d)"
| "session_step (VerifyNameSpelling name) (t, d) = (t, d)"
| "session_step (VerifyEmailSpelling email) (t, d) = (t, d)"
| "session_step (CheckTimeSlot date time) (t, d) = snd (check_time_slot_availability t d date time)"
| "session_step FetchSlots (t, d) = snd (fetch_slots t d)"
| "session_step (Book answer start_time duration) (t, d) =
     snd (book_appointment t d answer start_time duration)"
| "session_step (Reschedule appointment_id new_time) (t, d) =
     snd (reschedule_user_appointment t d appointment_id new_time)"
| "session_step Retrieve (t, d) = snd (retrieve_appointments t d)"
| "session_step (Cancel appointment_id) (t, d) = snd (cancel_user_appointment t d appointment_id)"
| "session_step (AddTurn role content) (t, d) = add_turn t d role content"

fun run_session :: "session_call list \<Rightarrow> agent_tools \<times> db \<Rightarrow> agent_tools \<times> db" where
  "run_session [] s = s"
| "run_session (c # cs) s = run_session cs (session_step c s)"

text \<open>
  What "never cleared" means between a state and a later one: a user set on the tools
  object, a user id set on the chat context and a user id set on a session row are still
  set, and the session rows are the same sessions.
\<close>

definition session_kept :: "session_row \<Rightarrow> session_row \<Rightarrow> bool" where
  "session_kept s s' =
     (s_session_id s' = s_session_id s \<and> (s_user_id s \<noteq> None \<longrightarrow> s_user_id s' \<noteq> None))"

definition ctx_bound :: "agent_tools \<Rightarrow> bool" where
  "ctx_bound t = (case t_chat_ctx t of None \<Rightarrow> False | Some c \<Rightarrow> c_user_id c \<noteq> None)"

definition binding_kept :: "agent_tools \<times> db \<Rightarrow> agent_tools \<times> db \<Rightarrow> bool" where
  "binding_kept s s' =
     ((t_user (fst s) \<noteq> None \<longrightarrow> t_user (fst s') \<noteq> None) \<and>
      (ctx_bound (fst s) \<longrightarrow> ctx_bound (fst s')) \<and>
      list_all2 session_kept (session_memory (snd s)) (session_memory (snd s')))"

text \<open>
  The three places that hold the identity of a session are left alone: the user of the
  tools object, the user id of its chat context, and the session rows.
\<close>

definition identity_untouched :: "agent_tools \<times> db \<Rightarrow> agent_tools \<times> db \<Rightarrow> bool" where
  "identity_untouched s s' =
     (t_user (fst s') = t_user (fst s) \<and>
      map_option c_user_id (t_chat_ctx (fst s')) = map_option c_user_id (t_chat_ctx (fst s)) \<and>
      session_memory (snd s') = session_memory (snd s))"

text \<open>The chat context is there and its user id is the id of the identified user, if any.\<close>

definition ctx_follows_user :: "agent_tools \<Rightarrow> bool" where
  "ctx_follows_user t =
     (case t_chat_ctx t of
        None \<Rightarrow> False
      | Some c \<Rightarrow> c_user_id c = map_option u_id (t_user t))"

section \<open>A store without a given appointment id\<close>

definition without_id :: "db \<Rightarrow> string \<Rightarrow> db" where
  "without_id d appointment_id =
     d\<lparr>appointments := filter (\<lambda>a. a_id a \<noteq> appointment_id) (appointments d)\<rparr>"

section \<open>The pipeline sequencer of agent.py\<close>

text \<open>
  \<open>entrypoint\<close> runs its stages one after the other. A run is the list of what it has
  done, in order, and the exception that ended it, if one did; a run that no exception
  ended has reached the point where it listens. What the collaborators do is a parameter:
  each constructor and each awaited call of a stage either returns or raises, and
  \<open>avatar.start\<close> returns, raises or hangs after some time. Time is counted in the units
  of \<open>asyncio.sleep\<close> and of the \<open>timeout\<close> argument. \<open>broadcast_status\<close> catches what
  publishing raises.
\<close>

text \<open>
  \<open>TimeoutError\<close> and \<open>OtherError\<close> are caught by \<open>except Exception\<close>;
  \<open>CancelledError\<close> is not.
\<close>

datatype exn = TimeoutError | CancelledError | OtherError

datatype avatar_run =
  Returns nat
| Raises nat exn
| Hangs

record collaborators =
  e_stt :: "exn option"
  e_llm :: "exn option"
  e_tts :: "exn option"
  e_probe :: "exn option"
  e_vad :: "exn option"
  e_agent :: "exn option"
  e_session_start :: "exn option"
  e_avatar_new :: "exn option"
  e_avatar_start :: avatar_run
  e_say :: "exn option"

datatype action =
  Broadcast string string
| Init string
| Probe
| SessionStart
| Sleep nat
| AvatarNew
| AvatarWait nat
| Say string

type_synonym run = "action list \<times> exn option"

text \<open>Actions that cannot raise, and a call that is done when it returns.\<close>

definition act :: "action list \<Rightarrow> run" where
  "act as = (as, None)"

definition call :: "action \<Rightarrow> exn option \<Rightarrow> run" where
  "call a raised = (case raised of None \<Rightarrow> ([a], None) | Some e \<Rightarrow> ([], Some e))"

text \<open>One part after the other; nothing runs after an exception.\<close>

definition seq :: "run \<Rightarrow> run \<Rightarrow> run" where
  "seq r1 r2 = (case snd r1 of Some e \<Rightarrow> r1 | None \<Rightarrow> (fst r1 @ fst r2, snd r2))"

fun seq_all :: "run list \<Rightarrow> run" where
  "seq_all [] = ([], None)"
| "seq_all (r # rs) = seq r (seq_all rs)"

text \<open>The probe of the store, in its \<open>try\<close> with \<open>except Exception\<close>.\<close>

definition probe_stage :: "exn option \<Rightarrow> run" where
  "probe_stage raised =
     (case raised of
        None \<Rightarrow> ([Probe, Broadcast ''database'' ''ready''], None)
      | Some CancelledError \<Rightarrow> ([], Some CancelledError)
      | Some _ \<Rightarrow> ([Broadcast ''database'' ''error''], None))"

datatype avatar_outcome = Started | TimedOut | Failed | Cancelled

definition avatar_timeout :: nat where
  "avatar_timeout = 20"

text \<open>
  \<open>asyncio.wait_for(avatar.start(...), timeout=20.0)\<close>: the outcome of the awaited call
  when it ends before the timeout, \<open>TimeoutError\<close> at the timeout otherwise; with the
  time spent waiting. The \<open>except\<close> clauses then sort the exceptions: the first takes
  \<open>TimeoutError\<close>, the second every other \<open>Exception\<close>, and none takes \<open>CancelledError\<close>.
\<close>

definition wait_for :: "avatar_run \<Rightarrow> avatar_outcome \<times> nat" where
  "wait_for r =
     (case r of
        Returns n \<Rightarrow> if n < avatar_timeout then (Started, n) else (TimedOut, avatar_timeout)
      | Raises n e \<Rightarrow>
          if n < avatar_timeout
          then (case e of
                  TimeoutError \<Rightarrow> (TimedOut, n)
                | CancelledError \<Rightarrow> (Cancelled, n)
                | OtherError \<Rightarrow> (Failed, n))
          else (TimedOut, avatar_timeout)
      | Hangs \<Rightarrow> (TimedOut, avatar_timeout))"

definition greeting :: string where
  "greeting =
     ''Hello! I'm your clinic appointment assistant. How can I help you today? '' @
     ''Would you like to schedule, reschedule, or cancel an appointment?''"

text \<open>The \<open>try\<close> around \<open>avatar.start\<close>, with the value it leaves in \<open>avatar_ready\<close>.\<close>

definition avatar_stage :: "avatar_run \<Rightarrow> run \<times> bool" where
  "avatar_stage r =
     (case wait_for r of
        (Started, n) \<Rightarrow> (([AvatarWait n, Broadcast ''avatar'' ''ready'', Sleep 2], None), True)
      | (TimedOut, n) \<Rightarrow> (([AvatarWait n, Broadcast ''avatar'' ''unavailable''], None), False)
      | (Failed, n) \<Rightarrow> (([AvatarWait n, Broadcast ''avatar'' ''error''], None), False)
      | (Cancelled, n) \<Rightarrow> (([AvatarWait n], Some CancelledError), False))"

text \<open>
  From the first status to the greeting. The avatar session object is made before the
  \<open>try\<close> that guards \<open>avatar.start\<close>.
\<close>

definition entrypoint :: "collaborators \<Rightarrow> run" where
  "entrypoint env =
     (let (avatar_run, avatar_ready) = avatar_stage (e_avatar_start env)
      in seq_all
           [act [Broadcast ''stt'' ''initializing''], call (Init ''stt'') (e_stt env),
            act [Broadcast ''stt'' ''ready''],
            act [Broadcast ''llm'' ''initializing''], call (Init ''llm'') (e_llm env),
            act [Broadcast ''llm'' ''ready''],
            act [Broadcast ''tts'' ''initializing''], call (Init ''tts'') (e_tts env),
            act [Broadcast ''tts'' ''ready''],
            act [Broadcast ''database'' ''initializing''], probe_stage (e_probe env),
            call (Init ''vad'') (e_vad env),
            call (Init ''agent'') (e_agent env),
            call SessionStart (e_session_start env),
            act [Sleep 1],
            act [Broadcast ''avatar'' ''initializing''],
            call AvatarNew (e_avatar_new env),
            avatar_run,
            act (if avatar_ready then [Sleep 1] else []),
            call (Say greeting) (e_say env)])"

text \<open>The statuses with which the avatar stage can end.\<close>

definition avatar_resolved :: "action \<Rightarrow> bool" where
  "avatar_resolved a =
     (a = Broadcast ''avatar'' ''ready'' \<or> a = Broadcast ''avatar'' ''unavailable'' \<or>
      a = Broadcast ''avatar'' ''error'')"

definition is_say :: "action \<Rightarrow> bool" where
  "is_say a = (case a of Say _ \<Rightarrow> True | _ \<Rightarrow> False)"

definition is_session_start :: "action \<Rightarrow> bool" where
  "is_session_start a = (a = SessionStart)"

text \<open>\<open>before p q xs\<close>: some action with \<open>p\<close> comes earlier in \<open>xs\<close> than every action with \<open>q\<close>.\<close>

fun before :: "(action \<Rightarrow> bool) \<Rightarrow> (action \<Rightarrow> bool) \<Rightarrow> action list \<Rightarrow> bool" where
  "before p q [] = False"
| "before p q (x # xs) = (if q x then False else if p x then True else before p q xs)"

section \<open>A small clinic, for concrete runs\<close>

definition ex_ann :: user_row where
  "ex_ann = \<lparr>u_id = ''u1'', u_contact_number = ''555-0100'', u_name = Some ''Ann Lee'',
             u_email = Some ''ann@clinic.example''\<rparr>"

definition ex_bob :: user_row where
  "ex_bob = \<lparr>u_id = ''u2'', u_contact_number = ''555-0200'', u_name = Some ''Bob Ray'',
             u_email = None\<rparr>"

definition ex_appt_ann :: appointment_row where
  "ex_appt_ann = \<lparr>a_id = ''a1'', a_contact_number = ''555-0100'',
                  a_appointment_time = ''2025-03-01T10:00:00'',
                  a_details = Some ''30 minute appointment'', a_status = ''booked'',
                  a_created_at = None\<rparr>"

definition ex_appt_bob :: appointment_row where
  "ex_appt_bob = \<lparr>a_id = ''a2'', a_contact_number = ''555-0200'',
                  a_appointment_time = ''2025-03-02T11:00:00'',
                  a_details = Some ''30 minute appointment'', a_status = ''booked'',
                  a_created_at = None\<rparr>"

definition ex_appt_old :: appointment_row where
  "ex_appt_old = \<lparr>a_id = ''a0'', a_contact_number = ''555-0100'',
                  a_appointment_time = ''2025-02-01T09:00:00'',
                  a_details = Some ''30 minute appointment'', a_status = ''cancelled'',
                  a_created_at = None\<rparr>"

definition ex_db :: db where
  "ex_db = \<lparr>users = [ex_ann, ex_bob],
            appointments = [ex_appt_old, ex_appt_ann, ex_appt_bob],
            session_memory = [\<lparr>s_session_id = ''room'', s_user_id = None\<rparr>], messages = []\<rparr>"

text \<open>The store after Ann has been identified in the session \<open>room\<close>.\<close>

definition ex_db_ann :: db where
  "ex_db_ann = ex_db\<lparr>session_memory := [\<lparr>s_session_id = ''room'', s_user_id = Some ''u1''\<rparr>]\<rparr>"

definition ex_tools :: agent_tools where
  "ex_tools = new_agent_tools False (Some new_chat_context) ''room''"

definition ex_tools_ann :: agent_tools where
  "ex_tools_ann = ex_tools\<lparr>t_user := Some ex_ann, t_chat_ctx := Some \<lparr>c_items = [], c_user_id = Some ''u1''\<rparr>\<rparr>"

text \<open>Collaborators that all return, the avatar after 3 units.\<close>

definition ex_env :: collaborators where
  "ex_env = \<lparr>e_stt = None, e_llm = None, e_tts = None, e_probe = None, e_vad = None,
             e_agent = None, e_session_start = None, e_avatar_new = None,
             e_avatar_start = Returns 3, e_say = None\<rparr>"

definition ex_cy :: user_row where
  "ex_cy = \<lparr>u_id = ''u3'', u_contact_number = ''555-0300'', u_name = Some ''Cy Doe'',
            u_email = Some ''cy@clinic.example''\<rparr>"

text \<open>The tools object of the session \<open>room\<close> once \<open>entrypoint\<close> has opened it.\<close>

definition ex_tools_started :: agent_tools where
  "ex_tools_started =
     ex_tools\<lparr>t_chat_ctx := Some \<lparr>c_items = [(''system'', ''You are a helpful assistant'')],
                                   c_user_id = None\<rparr>\<rparr>"

section \<open>Facts about the store and the tools\<close>

lemma first_row_None [simp]: "first_row xs = None \<longleftrightarrow> xs = []"
  by (cases xs) (simp_all add: first_row_def)

lemma emit_event_user [simp]: "t_user (emit_event t e m) = t_user t"
  by (simp add: emit_event_def)

lemma view_ids: "appointment_exists (get_appointments d uid) aid \<longleftrightarrow>
   (\<exists>r a. get_user_by_id d uid = Some r \<and> a \<in> set (appointments d) \<and> a_id a = aid \<and>
      a_contact_number a = u_contact_number r \<and> a_status a = ''booked'')"
  by (cases "get_user_by_id d uid") (auto simp: appointment_exists_def get_appointments_def view_of_def)

lemma get_user_without [simp]: "get_user_by_id (without_id d aid) uid = get_user_by_id d uid"
  by (simp add: get_user_by_id_def without_id_def)

lemma appts_without [simp]: "appointments (without_id d aid) = filter (\<lambda>a. a_id a \<noteq> aid) (appointments d)"
  by (simp add: without_id_def)

lemma get_user_by_id_appts [simp]:
  "get_user_by_id (d\<lparr>appointments := xs\<rparr>) uid = get_user_by_id d uid"
  by (simp add: get_user_by_id_def)

lemma cancel_appointment_store:
  "snd (cancel_appointment d aid) = d\<lparr>appointments := map (cancel_row aid) (appointments d)\<rparr>"
  by (simp add: cancel_appointment_def Let_def)

lemma cancelled_not_exists:
  "\<not> appointment_exists
        (get_appointments (d\<lparr>appointments := map (cancel_row aid) (appointments d)\<rparr>) uid) aid"
proof
  assume "appointment_exists
        (get_appointments (d\<lparr>appointments := map (cancel_row aid) (appointments d)\<rparr>) uid) aid"
  then obtain a where a: "a \<in> set (map (cancel_row aid) (appointments d))"
      "a_id a = aid" "a_status a = ''booked''"
    unfolding view_ids by auto
  from a(1) obtain b where "a = cancel_row aid b" by auto
  with a(2,3) show False by (simp add: cancel_row_def split: if_splits)
qed



lemma cancel_first:
  assumes "t_user t = Some user"
    and "get_user_by_id d (u_id user) = Some r"
    and "a \<in> set (appointments d)"
    and "a_id a = aid" and "a_contact_number a = u_contact_number r"
    and "a_status a = ''booked''"
  shows "cancel_user_appointment t d aid =
      (''Your appointment has been cancelled successfully. '' @
       ''Is there anything else I can help you with?'',
       emit_event (emit_event t ''tool_call'' (''Canceling appointment '' @ aid))
         ''tool_result'' ''Appointment cancelled successfully'', d\<lparr>appointments := map (cancel_row aid) (appointments d)\<rparr>)"
proof -
  have ex: "appointment_exists (get_appointments d (u_id user)) aid"
    unfolding view_ids using assms by blast
  have hit: "filter (\<lambda>a. a_id a = aid) (appointments d) \<noteq> []"
    using assms(3,4) by (auto simp: filter_empty_conv)
  show ?thesis
    using assms(1) ex hit
    by (simp add: cancel_user_appointment_def cancel_appointment_def Let_def)
qed

lemma cancel_again:
  assumes "t_user t2 = Some user"
  shows "cancel_user_appointment t2 (d\<lparr>appointments := map (cancel_row aid) (appointments d)\<rparr>) aid =
      (cancel_not_found, emit_event t2 ''tool_call'' (''Canceling appointment '' @ aid),
       d\<lparr>appointments := map (cancel_row aid) (appointments d)\<rparr>)"
  using assms cancelled_not_exists [where d = d and aid = aid and uid = "u_id user"]
  by (simp add: cancel_user_appointment_def Let_def)

lemma reschedule_row_keeps [simp]:
  "a_id (reschedule_row aid new a) = a_id a"
  "a_status (reschedule_row aid new a) = a_status a"
  "a_contact_number (reschedule_row aid new a) = a_contact_number a"
  by (simp_all add: reschedule_row_def)

lemma reschedule_user_appointment_success:
  assumes "reschedule_user_appointment t d aid new =
             (''Your appointment has been rescheduled to '' @ new @ ''.'', t', d')"
  shows "appointments d' = map (reschedule_row aid new) (appointments d) \<and>
         (\<exists>user r a. t_user t = Some user \<and> get_user_by_id d (u_id user) = Some r \<and>
            a \<in> set (appointments d) \<and> a_id a = aid \<and>
            a_contact_number a = u_contact_number r \<and> a_status a = ''booked'')"
proof (cases "t_user t")
  case None
  with assms show ?thesis by (simp add: reschedule_user_appointment_def)
next
  case (Some user)
  show ?thesis
  proof (cases "appointment_exists (get_appointments d (u_id user)) aid")
    case False
    with Some assms show ?thesis
      by (simp add: reschedule_user_appointment_def Let_def reschedule_not_found_def)
  next
    case True
    then have ex: "\<exists>r a. get_user_by_id d (u_id user) = Some r \<and> a \<in> set (appointments d) \<and>
        a_id a = aid \<and> a_contact_number a = u_contact_number r \<and> a_status a = ''booked''"
      unfolding view_ids .
    obtain res d2 where r: "reschedule_appointment d aid new = (res, d2)"
      by (cases "reschedule_appointment d aid new")
    from True Some assms r have "d' = d2"
      by (cases res) (simp_all add: reschedule_user_appointment_def Let_def)
    with r have "d' = snd (reschedule_appointment d aid new)" by simp
    then have "appointments d' = map (reschedule_row aid new) (appointments d)"
      by (simp add: reschedule_appointment_def Let_def)
    with ex Some show ?thesis by blast
  qed
qed

lemma reschedule_user_appointment_store:
  "snd (snd (reschedule_user_appointment t d aid new)) = d \<or>
   snd (snd (reschedule_user_appointment t d aid new)) =
     d\<lparr>appointments := map (reschedule_row aid new) (appointments d)\<rparr>"
  by (simp add: reschedule_user_appointment_def reschedule_appointment_def Let_def
      split: option.splits prod.splits)

section \<open>Appointment ids of other owners\<close>

text \<open>
  Claim C1. The caller is identified, and every appointment row with the given id belongs
  to a contact number other than the one that the store resolves for the caller (or the
  store resolves none). Then rescheduling and cancelling both answer not-found and leave
  the store as it is, and they do exactly what they do on the store from which every row
  with that id has been removed.
\<close>

theorem foreign_appointment_id_not_found:
  assumes "t_user t = Some user"
    and "\<forall>a \<in> set (appointments d). a_id a = appointment_id \<longrightarrow>
           (\<forall>r. get_user_by_id d (u_id user) = Some r \<longrightarrow> a_contact_number a \<noteq> u_contact_number r)"
  shows "reschedule_user_appointment t d appointment_id new_time =
           (reschedule_not_found,
            emit_event t ''tool_call''
              (''Rescheduling appointment '' @ appointment_id @ '' to '' @ new_time), d) \<and>
         cancel_user_appointment t d appointment_id =
           (cancel_not_found,
            emit_event t ''tool_call'' (''Canceling appointment '' @ appointment_id), d) \<and>
         reschedule_user_appointment t (without_id d appointment_id) appointment_id new_time =
           (reschedule_not_found,
            emit_event t ''tool_call''
              (''Rescheduling appointment '' @ appointment_id @ '' to '' @ new_time),
            without_id d appointment_id) \<and>
         cancel_user_appointment t (without_id d appointment_id) appointment_id =
           (cancel_not_found,
            emit_event t ''tool_call'' (''Canceling appointment '' @ appointment_id),
            without_id d appointment_id)"
proof -
  have no: "\<not> appointment_exists (get_appointments d (u_id user)) appointment_id"
    using assms(2) unfolding view_ids by blast
  have no': "\<not> appointment_exists (get_appointments (without_id d appointment_id) (u_id user))
                 appointment_id"
    unfolding view_ids by simp
  show ?thesis
    using assms(1) no no'
    by (simp add: reschedule_user_appointment_def cancel_user_appointment_def Let_def)
qed

theorem foreign_appointment_id_not_found_witness:
  "reschedule_user_appointment ex_tools_ann ex_db ''a2'' ''2025-04-01T09:00:00'' =
     (reschedule_not_found, ex_tools_ann, ex_db) \<and>
   cancel_user_appointment ex_tools_ann ex_db ''a2'' = (cancel_not_found, ex_tools_ann, ex_db)"
proof -
  have h1: "t_user ex_tools_ann = Some ex_ann"
    by (simp add: ex_tools_ann_def)
  have h2: "\<forall>a \<in> set (appointments ex_db). a_id a = ''a2'' \<longrightarrow>
           (\<forall>r. get_user_by_id ex_db (u_id ex_ann) = Some r \<longrightarrow> a_contact_number a \<noteq> u_contact_number r)"
    by (simp add: ex_db_def ex_ann_def ex_bob_def ex_appt_ann_def ex_appt_bob_def ex_appt_old_def
        get_user_by_id_def first_row_def)
  have e: "emit_event ex_tools_ann x y = ex_tools_ann" for x y
    by (simp add: emit_event_def ex_tools_ann_def ex_tools_def new_agent_tools_def)
  show ?thesis
    using foreign_appointment_id_not_found [OF h1 h2, of "''2025-04-01T09:00:00''"] by (simp add: e)
qed

section \<open>Availability of a slot\<close>

text \<open>
  Claim C2. \<open>check_availability\<close> is a boolean function of the store, the date and the
  time: it is true exactly when no appointment row whose time is the date, \<open>T\<close>, the
  time and \<open>:00\<close> has the status booked.
\<close>

theorem check_availability_iff_no_booked:
  "check_availability d date time_slot \<longleftrightarrow>
     \<not> (\<exists>a \<in> set (appointments d).
          a_appointment_time a = date @ ''T'' @ time_slot @ '':00'' \<and> a_status a = ''booked'')"
  by (auto simp: check_availability_def Let_def filter_empty_conv)

theorem check_availability_iff_no_booked_witness:
  "\<not> check_availability ex_db ''2025-03-01'' ''10:00'' \<and>
   check_availability ex_db ''2025-02-01'' ''09:00''"
  using check_availability_iff_no_booked [of ex_db "''2025-03-01''" "''10:00''"]
    check_availability_iff_no_booked [of ex_db "''2025-02-01''" "''09:00''"]
  by (simp add: ex_db_def ex_appt_ann_def ex_appt_bob_def ex_appt_old_def)

section \<open>Rescheduling in place\<close>

text \<open>
  Claim C3. No reschedule call changes a cancelled row. When the call succeeds, every owner
  has as many rows as before, there are as many rows as before, a booked row with the given
  id exists, every row keeps its id and its status, the booked rows with the given id have
  the new time and every other row is as it was.
\<close>

theorem reschedule_in_place:
  "(\<forall>i < length (appointments d). a_status (appointments d ! i) = ''cancelled'' \<longrightarrow>
      length (appointments (snd (snd (reschedule_user_appointment t d aid new)))) = length (appointments d) \<and>
      appointments (snd (snd (reschedule_user_appointment t d aid new))) ! i = appointments d ! i) \<and>
   (reschedule_user_appointment t d aid new =
      (''Your appointment has been rescheduled to '' @ new @ ''.'', t', d') \<longrightarrow>
    (\<forall>c. length (filter (\<lambda>a. a_contact_number a = c) (appointments d')) =
          length (filter (\<lambda>a. a_contact_number a = c) (appointments d))) \<and>
    length (appointments d') = length (appointments d) \<and>
    (\<exists>i < length (appointments d). a_id (appointments d ! i) = aid \<and> a_status (appointments d ! i) = ''booked'') \<and>
    (\<forall>i < length (appointments d).
       a_id (appointments d' ! i) = a_id (appointments d ! i) \<and>
       a_status (appointments d' ! i) = a_status (appointments d ! i) \<and>
       (if a_id (appointments d ! i) = aid \<and> a_status (appointments d ! i) = ''booked''
        then appointments d' ! i = (appointments d ! i)\<lparr>a_appointment_time := new\<rparr>
        else appointments d' ! i = appointments d ! i)))"
proof (intro conjI impI allI)
  fix i assume "i < length (appointments d)" "a_status (appointments d ! i) = ''cancelled''"
  then show "length (appointments (snd (snd (reschedule_user_appointment t d aid new)))) = length (appointments d)"
    and "appointments (snd (snd (reschedule_user_appointment t d aid new))) ! i = appointments d ! i"
    using reschedule_user_appointment_store [of t d aid new]
    by (auto simp: reschedule_row_def)
next
  assume ok: "reschedule_user_appointment t d aid new =
      (''Your appointment has been rescheduled to '' @ new @ ''.'', t', d')"
  note s = reschedule_user_appointment_success [OF ok]
  from s have m: "appointments d' = map (reschedule_row aid new) (appointments d)" by blast
  show "length (appointments d') = length (appointments d)" using m by simp
  show "\<exists>i < length (appointments d). a_id (appointments d ! i) = aid \<and> a_status (appointments d ! i) = ''booked''"
    using s by (metis in_set_conv_nth)
  { fix c
    have "filter (\<lambda>a. a_contact_number a = c) (map (reschedule_row aid new) (appointments d))
        = map (reschedule_row aid new) (filter (\<lambda>a. a_contact_number a = c) (appointments d))"
      by (simp add: filter_map comp_def)
    then show "length (filter (\<lambda>a. a_contact_number a = c) (appointments d')) =
          length (filter (\<lambda>a. a_contact_number a = c) (appointments d))"
      using m by simp }
  { fix i assume i: "i < length (appointments d)"
    show "a_id (appointments d' ! i) = a_id (appointments d ! i)" using m i by simp
    show "a_status (appointments d' ! i) = a_status (appointments d ! i)" using m i by simp
    show "if a_id (appointments d ! i) = aid \<and> a_status (appointments d ! i) = ''booked''
        then appointments d' ! i = (appointments d ! i)\<lparr>a_appointment_time := new\<rparr>
        else appointments d' ! i = appointments d ! i"
      using m i by (simp add: reschedule_row_def) }
qed

theorem reschedule_in_place_witness:
  "reschedule_user_appointment ex_tools_ann ex_db ''a1'' ''2025-04-01T09:00:00'' =
     (''Your appointment has been rescheduled to '' @ ''2025-04-01T09:00:00'' @ ''.'',
      ex_tools_ann,
      ex_db\<lparr>appointments :=
        [ex_appt_old, ex_appt_ann\<lparr>a_appointment_time := ''2025-04-01T09:00:00''\<rparr>, ex_appt_bob]\<rparr>) \<and>
   a_status (appointments ex_db ! 0) = ''cancelled'' \<and>
   appointments (snd (snd (reschedule_user_appointment ex_tools_ann ex_db ''a0''
     ''2025-04-01T09:00:00''))) ! 0 = appointments ex_db ! 0 \<and>
   length (filter (\<lambda>a. a_contact_number a = ''555-0100'')
     (appointments (ex_db\<lparr>appointments :=
        [ex_appt_old, ex_appt_ann\<lparr>a_appointment_time := ''2025-04-01T09:00:00''\<rparr>, ex_appt_bob]\<rparr>))) =
   length (filter (\<lambda>a. a_contact_number a = ''555-0100'') (appointments ex_db))"
proof -
  let ?new = "''2025-04-01T09:00:00''"
  let ?d' = "ex_db\<lparr>appointments :=
        [ex_appt_old, ex_appt_ann\<lparr>a_appointment_time := ?new\<rparr>, ex_appt_bob]\<rparr>"
  have e: "emit_event ex_tools_ann x y = ex_tools_ann" for x y
    by (simp add: emit_event_def ex_tools_ann_def ex_tools_def new_agent_tools_def)
  have u: "t_user ex_tools_ann = Some ex_ann"
    by (simp add: ex_tools_ann_def)
  have g: "get_appointments ex_db (u_id ex_ann) = [view_of ex_appt_ann]"
    by (simp add: get_appointments_def get_user_by_id_def first_row_def ex_db_def ex_ann_def
        ex_bob_def ex_appt_ann_def ex_appt_bob_def ex_appt_old_def)
  have x: "appointment_exists [view_of ex_appt_ann] ''a1''"
    by (simp add: appointment_exists_def view_of_def ex_appt_ann_def)
  have r: "reschedule_appointment ex_db ''a1'' ?new =
      (Some (ex_appt_ann\<lparr>a_appointment_time := ?new\<rparr>), ?d')"
    by (simp add: reschedule_appointment_def reschedule_row_def first_row_def ex_db_def
        ex_appt_ann_def ex_appt_bob_def ex_appt_old_def)
  have ok: "reschedule_user_appointment ex_tools_ann ex_db ''a1'' ?new =
     (''Your appointment has been rescheduled to '' @ ?new @ ''.'', ex_tools_ann, ?d')"
    by (simp add: reschedule_user_appointment_def u g x r e)
  have c: "a_status (appointments ex_db ! 0) = ''cancelled''" and l: "0 < length (appointments ex_db)"
    by (simp_all add: ex_db_def ex_appt_old_def)
  note t1 = reschedule_in_place [of ex_db ex_tools_ann "''a0''" ?new ex_tools_ann ?d']
  note t2 = reschedule_in_place [of ex_db ex_tools_ann "''a1''" ?new ex_tools_ann ?d']
  from t1 c l have k: "appointments (snd (snd (reschedule_user_appointment ex_tools_ann ex_db ''a0''
     ?new))) ! 0 = appointments ex_db ! 0"
    by blast
  from t2 ok have n: "length (filter (\<lambda>a. a_contact_number a = ''555-0100'') (appointments ?d')) =
      length (filter (\<lambda>a. a_contact_number a = ''555-0100'') (appointments ex_db))"
    by blast
  from ok c k n show ?thesis by blast
qed

section \<open>Cancelling once and again\<close>

text \<open>
  Claim C4. The caller is identified and owns a booked appointment with the given id. The
  first cancel reports success, keeps every row in its place and turns the status of the
  rows with that id to cancelled. After it, every cancel of that id by the same caller
  reports not-found and leaves the store, with its cancelled rows, as it is.
\<close>

theorem cancel_once_then_not_found:
  assumes "t_user t = Some user"
    and "get_user_by_id d (u_id user) = Some r"
    and "a \<in> set (appointments d)"
    and "a_id a = aid" and "a_contact_number a = u_contact_number r"
    and "a_status a = ''booked''"
  shows "fst (cancel_user_appointment t d aid) =
           ''Your appointment has been cancelled successfully. '' @
           ''Is there anything else I can help you with?'' \<and>
         t_user (fst (snd (cancel_user_appointment t d aid))) = Some user \<and>
         length (appointments (snd (snd (cancel_user_appointment t d aid)))) =
           length (appointments d) \<and>
         (\<forall>i < length (appointments d).
            appointments (snd (snd (cancel_user_appointment t d aid))) ! i =
              (if a_id (appointments d ! i) = aid
               then (appointments d ! i)\<lparr>a_status := ''cancelled''\<rparr>
               else appointments d ! i)) \<and>
         (\<forall>t2. t_user t2 = Some user \<longrightarrow>
            cancel_user_appointment t2 (snd (snd (cancel_user_appointment t d aid))) aid =
              (cancel_not_found,
               emit_event t2 ''tool_call'' (''Canceling appointment '' @ aid),
               snd (snd (cancel_user_appointment t d aid))))"
proof -
  note run = cancel_first [OF assms]
  have 1: "fst (cancel_user_appointment t d aid) =
           ''Your appointment has been cancelled successfully. '' @
           ''Is there anything else I can help you with?''"
    by (simp only: run fst_conv)
  have 2: "t_user (fst (snd (cancel_user_appointment t d aid))) = Some user"
    by (simp only: run fst_conv snd_conv emit_event_user assms(1))
  have d1: "snd (snd (cancel_user_appointment t d aid)) =
      d\<lparr>appointments := map (cancel_row aid) (appointments d)\<rparr>"
    by (simp only: run snd_conv)
  have 3: "length (appointments (snd (snd (cancel_user_appointment t d aid)))) =
           length (appointments d)"
    unfolding d1 by simp
  have 4: "\<forall>i < length (appointments d).
            appointments (snd (snd (cancel_user_appointment t d aid))) ! i =
              (if a_id (appointments d ! i) = aid
               then (appointments d ! i)\<lparr>a_status := ''cancelled''\<rparr>
               else appointments d ! i)"
    unfolding d1 by (simp add: cancel_row_def)
  have 5: "\<forall>t2. t_user t2 = Some user \<longrightarrow>
            cancel_user_appointment t2 (snd (snd (cancel_user_appointment t d aid))) aid =
              (cancel_not_found,
               emit_event t2 ''tool_call'' (''Canceling appointment '' @ aid),
               snd (snd (cancel_user_appointment t d aid)))"
    unfolding d1 using cancel_again by blast
  from 1 2 3 4 5 show ?thesis by blast
qed

theorem cancel_once_then_not_found_witness:
  "fst (cancel_user_appointment ex_tools_ann ex_db ''a1'') =
     ''Your appointment has been cancelled successfully. '' @
     ''Is there anything else I can help you with?'' \<and>
   length (appointments (snd (snd (cancel_user_appointment ex_tools_ann ex_db ''a1'')))) = 3 \<and>
   appointments (snd (snd (cancel_user_appointment ex_tools_ann ex_db ''a1''))) ! 1 =
     ex_appt_ann\<lparr>a_status := ''cancelled''\<rparr> \<and>
   cancel_user_appointment ex_tools_ann
     (snd (snd (cancel_user_appointment ex_tools_ann ex_db ''a1''))) ''a1'' =
     (cancel_not_found, ex_tools_ann, snd (snd (cancel_user_appointment ex_tools_ann ex_db ''a1'')))"
proof -
  have h1: "t_user ex_tools_ann = Some ex_ann"
    by (simp add: ex_tools_ann_def)
  have h2: "get_user_by_id ex_db (u_id ex_ann) = Some ex_ann"
    by (simp add: get_user_by_id_def first_row_def ex_db_def ex_ann_def ex_bob_def)
  have h3: "ex_appt_ann \<in> set (appointments ex_db)"
    by (simp add: ex_db_def)
  have h4: "a_id ex_appt_ann = ''a1''" and h5: "a_contact_number ex_appt_ann = u_contact_number ex_ann"
    and h6: "a_status ex_appt_ann = ''booked''"
    by (simp_all add: ex_appt_ann_def ex_ann_def)
  have e: "emit_event ex_tools_ann x y = ex_tools_ann" for x y
    by (simp add: emit_event_def ex_tools_ann_def ex_tools_def new_agent_tools_def)
  have n: "length (appointments ex_db) = 3" "appointments ex_db ! 1 = ex_appt_ann"
    by (simp_all add: ex_db_def)
  note c = cancel_once_then_not_found [OF h1 h2 h3 h4 h5 h6]
  from c have "\<forall>i<length (appointments ex_db).
     appointments (snd (snd (cancel_user_appointment ex_tools_ann ex_db ''a1''))) ! i =
     (if a_id (appointments ex_db ! i) = ''a1''
      then (appointments ex_db ! i)\<lparr>a_status := ''cancelled''\<rparr> else appointments ex_db ! i)"
    by blast
  then have r: "appointments (snd (snd (cancel_user_appointment ex_tools_ann ex_db ''a1''))) ! 1 =
     ex_appt_ann\<lparr>a_status := ''cancelled''\<rparr>"
    using n h4 by simp
  from c h1 have a: "cancel_user_appointment ex_tools_ann
     (snd (snd (cancel_user_appointment ex_tools_ann ex_db ''a1''))) ''a1'' =
     (cancel_not_found, emit_event ex_tools_ann ''tool_call'' (''Canceling appointment '' @ ''a1''),
      snd (snd (cancel_user_appointment ex_tools_ann ex_db ''a1'')))"
    by blast
  from c have l: "length (appointments (snd (snd (cancel_user_appointment ex_tools_ann ex_db ''a1'')))) = 3"
    using n by simp
  from c have f: "fst (cancel_user_appointment ex_tools_ann ex_db ''a1'') =
     ''Your appointment has been cancelled successfully. '' @
     ''Is there anything else I can help you with?''" by blast
  show ?thesis using f l r a unfolding e by blast
qed

section \<open>Calls before identification\<close>

text \<open>
  Claim C5. While no user is identified, booking, rescheduling, cancelling and retrieval
  each answer with their identify-first message, publish nothing and leave the store as
  it is.
\<close>

theorem unidentified_calls_rejected:
  assumes "t_user t = None"
  shows "book_appointment t d answer start_time duration =
           (''Please identify the user first before booking.'', t, d) \<and>
         reschedule_user_appointment t d appointment_id new_time =
           (''Please identify the user first before rescheduling.'', t, d) \<and>
         cancel_user_appointment t d appointment_id =
           (''Please identify the user first before canceling an appointment.'', t, d) \<and>
         retrieve_appointments t d = (''Please identify the user first.'', t, d)"
  using assms
  by (simp add: book_appointment_def reschedule_user_appointment_def
      cancel_user_appointment_def retrieve_appointments_def)

theorem unidentified_calls_rejected_witness:
  "t_user ex_tools = None \<and>
   book_appointment ex_tools ex_db (Some ''a9'') ''2025-05-01T09:00:00'' 30 =
     (''Please identify the user first before booking.'', ex_tools, ex_db) \<and>
   reschedule_user_appointment ex_tools ex_db ''a1'' ''2025-05-01T09:00:00'' =
     (''Please identify the user first before rescheduling.'', ex_tools, ex_db) \<and>
   cancel_user_appointment ex_tools ex_db ''a1'' =
     (''Please identify the user first before canceling an appointment.'', ex_tools, ex_db) \<and>
   retrieve_appointments ex_tools ex_db = (''Please identify the user first.'', ex_tools, ex_db)"
proof -
  have h: "t_user ex_tools = None"
    by (simp add: ex_tools_def new_agent_tools_def)
  show ?thesis
    using h unidentified_calls_rejected [OF h, of ex_db "Some ''a9''" "''2025-05-01T09:00:00''" 30
        "''a1''" "''2025-05-01T09:00:00''"]
    by simp
qed

section \<open>The suggested slots\<close>

text \<open>
  Claim C10. \<open>fetch_slots\<close> answers with one fixed string whatever the tools object and
  the store are, and leaves the store as it is.
\<close>

theorem fetch_slots_constant:
  "fst (fetch_slots t d) =
     ''Available slots: Tomorrow at 10:00 AM, Tomorrow at 2:00 PM, and Friday at 11:00 AM.'' \<and>
   fst (fetch_slots t d) = fst (fetch_slots t' d') \<and>
   snd (snd (fetch_slots t d)) = d"
  by (simp add: fetch_slots_def slots_reply_def)

theorem fetch_slots_constant_witness:
  "fst (fetch_slots ex_tools ex_db) = fst (fetch_slots ex_tools_ann (without_id ex_db ''a1'')) \<and>
   snd (snd (fetch_slots ex_tools ex_db)) = ex_db"
  using fetch_slots_constant [of ex_tools ex_db ex_tools_ann "without_id ex_db ''a1''"]
  by blast

section \<open>What the calls of a session leave alone\<close>

lemma emit_event_ctx [simp]: "t_chat_ctx (emit_event t e m) = t_chat_ctx t"
  by (simp add: emit_event_def)

lemma emit_event_bound [simp]: "ctx_bound (emit_event t e m) = ctx_bound t"
  by (simp add: ctx_bound_def)

lemma identity_untouched_refl: "identity_untouched s s"
  by (simp add: identity_untouched_def)

lemma check_time_slot_untouched:
  "identity_untouched (t, d) (snd (check_time_slot_availability t d date time))"
  by (simp add: identity_untouched_def check_time_slot_availability_def Let_def)

lemma fetch_slots_untouched: "identity_untouched (t, d) (snd (fetch_slots t d))"
  by (simp add: identity_untouched_def fetch_slots_def)

lemma create_appointment_sessions:
  "session_memory (snd (create_appointment d answer uid start dur summary)) = session_memory d"
  by (simp add: create_appointment_def Let_def split: option.splits)

lemma book_appointment_untouched:
  "identity_untouched (t, d) (snd (book_appointment t d answer start_time duration))"
proof (cases "t_user t")
  case None
  then show ?thesis by (simp add: identity_untouched_def book_appointment_def)
next
  case (Some user)
  obtain appt d' where c: "create_appointment d answer (u_id user) start_time duration None = (appt, d')"
    by (cases "create_appointment d answer (u_id user) start_time duration None")
  have "session_memory d' = session_memory d"
    using create_appointment_sessions [of d answer "u_id user" start_time duration None] c by simp
  with Some c show ?thesis
    by (cases appt) (simp_all add: identity_untouched_def book_appointment_def Let_def)
qed

lemma reschedule_untouched:
  "identity_untouched (t, d) (snd (reschedule_user_appointment t d appointment_id new_time))"
proof (cases "t_user t")
  case None
  then show ?thesis by (simp add: identity_untouched_def reschedule_user_appointment_def)
next
  case (Some user)
  obtain res d' where r: "reschedule_appointment d appointment_id new_time = (res, d')"
    by (cases "reschedule_appointment d appointment_id new_time")
  then have "session_memory d' = session_memory d"
    by (auto simp: reschedule_appointment_def Let_def)
  with Some r show ?thesis
    by (cases res; cases "appointment_exists (get_appointments d (u_id user)) appointment_id")
      (simp_all add: identity_untouched_def reschedule_user_appointment_def Let_def)
qed

lemma retrieve_untouched: "identity_untouched (t, d) (snd (retrieve_appointments t d))"
  by (cases "t_user t")
    (simp_all add: identity_untouched_def retrieve_appointments_def Let_def)

lemma cancel_untouched:
  "identity_untouched (t, d) (snd (cancel_user_appointment t d appointment_id))"
proof (cases "t_user t")
  case None
  then show ?thesis by (simp add: identity_untouched_def cancel_user_appointment_def)
next
  case (Some user)
  obtain res d' where r: "cancel_appointment d appointment_id = (res, d')"
    by (cases "cancel_appointment d appointment_id")
  then have "session_memory d' = session_memory d"
    by (auto simp: cancel_appointment_def Let_def)
  with Some r show ?thesis
    by (cases "res = []"; cases "appointment_exists (get_appointments d (u_id user)) appointment_id")
      (simp_all add: identity_untouched_def cancel_user_appointment_def Let_def)
qed

lemma add_message_effect:
  "c_items (fst (add_message ctx d role content)) = c_items ctx @ [(role, content)] \<and>
   c_user_id (fst (add_message ctx d role content)) = c_user_id ctx \<and>
   snd (add_message ctx d role content) =
     (case c_user_id ctx of
        None \<Rightarrow> d
      | Some uid \<Rightarrow>
          if uid = [] then d
          else d\<lparr>messages := messages d @ [\<lparr>m_user_id = uid, m_role = role, m_content = content\<rparr>]\<rparr>)"
  by (cases "c_user_id ctx")
    (simp_all add: add_message_def save_message_def truthy_def fmt_opt_def Let_def)

lemma add_message_sessions:
  "session_memory (snd (add_message ctx d role content)) = session_memory d"
  by (simp add: add_message_effect split: option.splits)

lemma add_turn_untouched: "identity_untouched (t, d) (add_turn t d role content)"
proof (cases "t_chat_ctx t")
  case None
  then show ?thesis by (simp add: identity_untouched_def add_turn_def)
next
  case (Some ctx)
  obtain ctx' d' where a: "add_message ctx d role content = (ctx', d')"
    by (cases "add_message ctx d role content")
  have "c_user_id ctx' = c_user_id ctx" "session_memory d' = session_memory d"
    using add_message_effect [of ctx d role content] add_message_sessions [of ctx d role content] a
    by simp_all
  with Some a show ?thesis
    by (simp add: identity_untouched_def add_turn_def)
qed

section \<open>The identified user over a session\<close>

lemma session_kept_bind: "session_kept s (bind_row sid uid s)"
  by (simp add: session_kept_def bind_row_def)

lemma sessions_kept_same: "list_all2 session_kept xs xs"
  by (rule list_all2_refl) (simp add: session_kept_def)

lemma sessions_kept_bind: "list_all2 session_kept xs (map (bind_row sid uid) xs)"
  unfolding list_all2_map2 by (rule list_all2_refl) (rule session_kept_bind)

lemma session_kept_trans: "session_kept a b \<Longrightarrow> session_kept b c \<Longrightarrow> session_kept a c"
  by (auto simp: session_kept_def)

lemma sessions_kept_trans:
  assumes "list_all2 session_kept xs ys" and "list_all2 session_kept ys zs"
  shows "list_all2 session_kept xs zs"
  using session_kept_trans assms by (rule list_all2_trans)

lemma binding_kept_refl: "binding_kept s s"
  by (simp add: binding_kept_def sessions_kept_same)

lemma binding_kept_trans: "binding_kept s s' \<Longrightarrow> binding_kept s' s'' \<Longrightarrow> binding_kept s s''"
  unfolding binding_kept_def using sessions_kept_trans by blast

lemma untouched_binding_kept: "identity_untouched s s' \<Longrightarrow> binding_kept s s'"
  by (cases "t_chat_ctx (fst s)"; cases "t_chat_ctx (fst s')")
    (simp_all add: identity_untouched_def binding_kept_def ctx_bound_def sessions_kept_same)

lemma untouched_ctx_follows:
  "identity_untouched (t, d) (t', d') \<Longrightarrow> ctx_follows_user t \<Longrightarrow> ctx_follows_user t'"
  by (cases "t_chat_ctx t"; cases "t_chat_ctx t'")
    (simp_all add: identity_untouched_def ctx_follows_user_def)

lemma tag_chat_ctx_user [simp]: "t_user (tag_chat_ctx t uid) = t_user t"
  by (simp add: tag_chat_ctx_def)

lemma identify_user_found:
  assumes "get_user_by_contact_or_email d i = Some u"
  shows "t_user (fst (snd (identify_user t d i))) = Some u"
    and "t_chat_ctx (fst (snd (identify_user t d i))) = map_option (set_user_id (u_id u)) (t_chat_ctx t)"
    and "session_memory (snd (snd (identify_user t d i))) =
           map (bind_row (t_session_id t) (u_id u)) (session_memory d)"
  using assms
  by (simp_all add: identify_user_def Let_def tag_chat_ctx_def update_session_user_def
      emit_event_def)

lemma identify_user_not_found:
  assumes "get_user_by_contact_or_email d i = None"
  shows "t_user (fst (snd (identify_user t d i))) = t_user t"
    and "t_chat_ctx (fst (snd (identify_user t d i))) = t_chat_ctx t"
    and "snd (snd (identify_user t d i)) = d"
  using assms by (simp_all add: identify_user_def Let_def)

lemma create_user_account_row:
  "t_user (fst (snd (create_user_account t d (Some i) c f l e))) =
     Some \<lparr>u_id = i, u_contact_number = c, u_name = Some (f @ '' '' @ l),
            u_email = (if e = [] then None else Some e)\<rparr>"
  "t_chat_ctx (fst (snd (create_user_account t d (Some i) c f l e))) =
     map_option (set_user_id i) (t_chat_ctx t)"
  "session_memory (snd (snd (create_user_account t d (Some i) c f l e))) = session_memory d"
  by (simp_all add: create_user_account_def create_user_def Let_def truthy_def tag_chat_ctx_def
      emit_event_def)

lemma create_user_account_no_row:
  "t_user (fst (snd (create_user_account t d None c f l e))) = t_user t"
  "t_chat_ctx (fst (snd (create_user_account t d None c f l e))) = t_chat_ctx t"
  "snd (snd (create_user_account t d None c f l e)) = d"
  by (simp_all add: create_user_account_def create_user_def Let_def)

lemma set_user_id_bound: "ctx_bound (t\<lparr>t_user := x, t_chat_ctx := map_option (set_user_id uid) c\<rparr>) \<longleftrightarrow> c \<noteq> None"
  by (cases c) (simp_all add: ctx_bound_def set_user_id_def)

lemma identify_user_kept: "binding_kept (t, d) (snd (identify_user t d i))"
proof (cases "get_user_by_contact_or_email d i")
  case None
  from identify_user_not_found [OF None, of t] show ?thesis
    by (simp add: binding_kept_def ctx_bound_def sessions_kept_same)
next
  case (Some u)
  from identify_user_found [OF Some, of t] show ?thesis
    by (cases "t_chat_ctx t")
      (simp_all add: binding_kept_def ctx_bound_def sessions_kept_bind set_user_id_def)
qed

lemma create_user_account_kept:
  "binding_kept (t, d) (snd (create_user_account t d answer c f l e))"
proof (cases answer)
  case None
  from create_user_account_no_row [of t d c f l e] None show ?thesis
    by (simp add: binding_kept_def ctx_bound_def sessions_kept_same)
next
  case (Some i)
  from create_user_account_row [of t d i c f l e] Some show ?thesis
    by (cases "t_chat_ctx t")
      (simp_all add: binding_kept_def ctx_bound_def sessions_kept_same set_user_id_def)
qed

lemma identify_user_follows:
  "ctx_follows_user t \<Longrightarrow> ctx_follows_user (fst (snd (identify_user t d i)))"
proof (cases "get_user_by_contact_or_email d i")
  case None
  assume "ctx_follows_user t"
  with identify_user_not_found [OF None, of t] show ?thesis
    by (cases "t_chat_ctx t") (simp_all add: ctx_follows_user_def)
next
  case (Some u)
  assume "ctx_follows_user t"
  with identify_user_found [OF Some, of t] show ?thesis
    by (cases "t_chat_ctx t") (simp_all add: ctx_follows_user_def set_user_id_def)
qed

lemma create_user_account_follows:
  "ctx_follows_user t \<Longrightarrow> ctx_follows_user (fst (snd (create_user_account t d answer c f l e)))"
proof (cases answer)
  case None
  assume "ctx_follows_user t"
  with create_user_account_no_row [of t d c f l e] None show ?thesis
    by (cases "t_chat_ctx t") (simp_all add: ctx_follows_user_def)
next
  case (Some i)
  assume "ctx_follows_user t"
  with create_user_account_row [of t d i c f l e] Some show ?thesis
    by (cases "t_chat_ctx t") (simp_all add: ctx_follows_user_def set_user_id_def)
qed

lemma session_step_untouched:
  assumes "\<forall>i. c \<noteq> Identify i" and "\<forall>a n f l e. c \<noteq> Enroll a n f l e"
  shows "identity_untouched (t, d) (session_step c (t, d))"
  using assms
  by (cases c)
    (simp_all add: identity_untouched_refl check_time_slot_untouched fetch_slots_untouched
      book_appointment_untouched reschedule_untouched retrieve_untouched cancel_untouched
      add_turn_untouched)

lemma session_step_kept: "binding_kept s (session_step c s)"
proof (cases s)
  case (Pair t d)
  show ?thesis
  proof (cases c)
    case (Identify i)
    with Pair show ?thesis by (simp add: identify_user_kept)
  next
    case (Enroll a n f l e)
    with Pair show ?thesis by (simp add: create_user_account_kept)
  qed (use Pair session_step_untouched [of c t d] in \<open>simp_all add: untouched_binding_kept\<close>)
qed

lemma run_session_kept: "binding_kept s (run_session cs s)"
proof (induction cs arbitrary: s)
  case Nil
  show ?case by (simp add: binding_kept_refl)
next
  case (Cons c cs)
  have "binding_kept s (session_step c s)" by (rule session_step_kept)
  moreover have "binding_kept (session_step c s) (run_session cs (session_step c s))"
    by (rule Cons.IH)
  ultimately show ?case by (simp add: binding_kept_trans)
qed

lemma session_step_follows:
  "ctx_follows_user (fst s) \<Longrightarrow> ctx_follows_user (fst (session_step c s))"
proof (cases s)
  case (Pair t d)
  assume f: "ctx_follows_user (fst s)"
  show ?thesis
  proof (cases c)
    case (Identify i)
    with Pair f show ?thesis by (simp add: identify_user_follows)
  next
    case (Enroll a n f l e)
    with Pair f show ?thesis by (simp add: create_user_account_follows)
  qed (use Pair f session_step_untouched [of c t d]
        untouched_ctx_follows [of t d "fst (session_step c (t, d))" "snd (session_step c (t, d))"]
       in \<open>simp_all\<close>)
qed

lemma run_session_follows:
  "ctx_follows_user (fst s) \<Longrightarrow> ctx_follows_user (fst (run_session cs s))"
  by (induction cs arbitrary: s) (simp_all add: session_step_follows)

lemma start_session_follows:
  "ctx_follows_user (fst (start_session room sid instr d0))"
  by (simp add: start_session_def Let_def split_beta ctx_follows_user_def new_agent_tools_def
      add_message_effect new_chat_context_def)

lemma start_session_messages:
  "messages (snd (start_session room sid instr d0)) = messages d0"
  by (simp add: start_session_def Let_def split_beta add_message_effect new_chat_context_def
      create_session_def)

lemmas ex_rows = ex_db_def ex_ann_def ex_bob_def ex_appt_ann_def ex_appt_bob_def ex_appt_old_def
lemmas ex_tool_defs = ex_tools_ann_def ex_tools_def new_agent_tools_def new_chat_context_def

lemma ex_identify_ann:
  "identify_user ex_tools ex_db ''555-0100'' =
     (''User identified: Ann Lee (ID: u1).'', ex_tools_ann, ex_db_ann)"
  by (simp add: identify_user_def get_user_by_contact_or_email_def get_user_by_contact_def
      first_row_def update_session_user_def bind_row_def tag_chat_ctx_def set_user_id_def
      emit_event_def fmt_opt_def Let_def ex_rows ex_tool_defs ex_db_ann_def)

lemma ex_identify_bob:
  "identify_user ex_tools_ann ex_db_ann ''555-0200'' =
     (''User identified: Bob Ray (ID: u2).'',
      ex_tools_ann\<lparr>t_user := Some ex_bob,
                   t_chat_ctx := Some \<lparr>c_items = [], c_user_id = Some ''u2''\<rparr>\<rparr>,
      ex_db\<lparr>session_memory := [\<lparr>s_session_id = ''room'', s_user_id = Some ''u2''\<rparr>]\<rparr>)"
  by (simp add: identify_user_def get_user_by_contact_or_email_def get_user_by_contact_def
      first_row_def update_session_user_def bind_row_def tag_chat_ctx_def set_user_id_def
      emit_event_def fmt_opt_def Let_def ex_rows ex_tool_defs ex_db_ann_def)

lemma ex_enroll_cy:
  "create_user_account ex_tools_ann ex_db_ann (Some ''u3'') ''555-0300'' ''Cy'' ''Doe''
     ''cy@clinic.example'' =
     (''Account created successfully! Welcome Cy Doe. Your information has been securely saved.'',
      ex_tools_ann\<lparr>t_user := Some ex_cy,
                   t_chat_ctx := Some \<lparr>c_items = [], c_user_id = Some ''u3''\<rparr>\<rparr>,
      ex_db_ann\<lparr>users := [ex_ann, ex_bob, ex_cy]\<rparr>)"
  by (simp add: create_user_account_def create_user_def truthy_def tag_chat_ctx_def
      set_user_id_def emit_event_def Let_def ex_rows ex_tool_defs ex_db_ann_def ex_cy_def)

text \<open>
  Claim C6, as the code has it. Whatever calls of the tools and turns of the conversation
  follow in a session, the binding is never cleared: a user set on the tools object stays
  set, a user id set on the chat context stays set, and every session row keeps its
  session id and, once it has a user id, has one. The bound user is not fixed. An
  identification that finds a user sets that user on the tools object, the id of that user
  on the chat context and on every session row of the session; one that finds no user
  changes nothing. An enrollment that the store answers with a row sets the new user on
  the tools object and the id of the new user on the chat context; one that the store
  answers without a row changes nothing.
\<close>

theorem identity_binding_replaced_never_cleared:
  "binding_kept s (run_session cs s) \<and>
   (\<forall>u. get_user_by_contact_or_email d identifier = Some u \<longrightarrow>
      t_user (fst (session_step (Identify identifier) (t, d))) = Some u \<and>
      t_chat_ctx (fst (session_step (Identify identifier) (t, d))) =
        map_option (set_user_id (u_id u)) (t_chat_ctx t) \<and>
      list_all2
        (\<lambda>r r'. r' = (if s_session_id r = t_session_id t then r\<lparr>s_user_id := Some (u_id u)\<rparr> else r))
        (session_memory d) (session_memory (snd (session_step (Identify identifier) (t, d))))) \<and>
   (get_user_by_contact_or_email d identifier = None \<longrightarrow>
      t_user (fst (session_step (Identify identifier) (t, d))) = t_user t \<and>
      t_chat_ctx (fst (session_step (Identify identifier) (t, d))) = t_chat_ctx t \<and>
      snd (session_step (Identify identifier) (t, d)) = d) \<and>
   t_user (fst (session_step (Enroll (Some i) contact_number first_name last_name email) (t, d))) =
     Some \<lparr>u_id = i, u_contact_number = contact_number,
            u_name = Some (first_name @ '' '' @ last_name),
            u_email = (if email = [] then None else Some email)\<rparr> \<and>
   t_chat_ctx (fst (session_step (Enroll (Some i) contact_number first_name last_name email) (t, d))) =
     map_option (set_user_id i) (t_chat_ctx t) \<and>
   t_user (fst (session_step (Enroll None contact_number first_name last_name email) (t, d))) =
     t_user t \<and>
   t_chat_ctx (fst (session_step (Enroll None contact_number first_name last_name email) (t, d))) =
     t_chat_ctx t \<and>
   snd (session_step (Enroll None contact_number first_name last_name email) (t, d)) = d"
proof -
  have rows: "list_all2
        (\<lambda>r r'. r' = (if s_session_id r = t_session_id t then r\<lparr>s_user_id := Some (u_id u)\<rparr> else r))
        (session_memory d) (map (bind_row (t_session_id t) (u_id u)) (session_memory d))" for u
    unfolding list_all2_map2 by (rule list_all2_refl) (simp add: bind_row_def)
  show ?thesis
    by (simp add: rows run_session_kept identify_user_found identify_user_not_found
        create_user_account_row create_user_account_no_row)
qed

theorem identity_binding_replaced_never_cleared_witness:
  "t_user ex_tools_ann \<noteq> None \<and> ctx_bound ex_tools_ann \<and>
   t_user (fst (run_session
      [Identify ''555-0999'', AddTurn ''user'' ''hello'', Cancel ''a1'',
       Enroll None ''555-0300'' ''Cy'' ''Doe'' ''cy@clinic.example'', Identify ''555-0200'']
      (ex_tools_ann, ex_db_ann))) \<noteq> None \<and>
   ctx_bound (fst (run_session
      [Identify ''555-0999'', AddTurn ''user'' ''hello'', Cancel ''a1'',
       Enroll None ''555-0300'' ''Cy'' ''Doe'' ''cy@clinic.example'', Identify ''555-0200'']
      (ex_tools_ann, ex_db_ann))) \<and>
   list_all2 session_kept (session_memory ex_db_ann)
     (session_memory (snd (run_session
      [Identify ''555-0999'', AddTurn ''user'' ''hello'', Cancel ''a1'',
       Enroll None ''555-0300'' ''Cy'' ''Doe'' ''cy@clinic.example'', Identify ''555-0200'']
      (ex_tools_ann, ex_db_ann)))) \<and>
   get_user_by_contact_or_email ex_db_ann ''555-0200'' = Some ex_bob \<and>
   t_user (fst (session_step (Identify ''555-0200'') (ex_tools_ann, ex_db_ann))) = Some ex_bob \<and>
   get_user_by_contact_or_email ex_db_ann ''555-0999'' = None \<and>
   session_step (Identify ''555-0999'') (ex_tools_ann, ex_db_ann) = (ex_tools_ann, ex_db_ann)"
proof -
  let ?cs = "[Identify ''555-0999'', AddTurn ''user'' ''hello'', Cancel ''a1'',
       Enroll None ''555-0300'' ''Cy'' ''Doe'' ''cy@clinic.example'', Identify ''555-0200'']"
  have h1: "t_user (fst (ex_tools_ann, ex_db_ann)) \<noteq> None"
    by (simp add: ex_tools_ann_def)
  have h2: "ctx_bound (fst (ex_tools_ann, ex_db_ann))"
    by (simp add: ctx_bound_def ex_tools_ann_def)
  have h3: "get_user_by_contact_or_email ex_db_ann ''555-0200'' = Some ex_bob"
    by (simp add: get_user_by_contact_or_email_def get_user_by_contact_def first_row_def
        ex_db_ann_def ex_rows)
  have h4: "get_user_by_contact_or_email ex_db_ann ''555-0999'' = None"
    by (simp add: get_user_by_contact_or_email_def get_user_by_contact_def get_user_by_email_def
        first_row_def ex_db_ann_def ex_rows)
  have e: "emit_event ex_tools_ann x y = ex_tools_ann" for x y
    by (simp add: emit_event_def ex_tools_ann_def ex_tools_def new_agent_tools_def)
  note a = identity_binding_replaced_never_cleared
      [of "(ex_tools_ann, ex_db_ann)" ?cs ex_db_ann "''555-0200''" ex_tools_ann]
  note b = identity_binding_replaced_never_cleared
      [of "(ex_tools_ann, ex_db_ann)" ?cs ex_db_ann "''555-0999''" ex_tools_ann]
  from a have k: "binding_kept (ex_tools_ann, ex_db_ann) (run_session ?cs (ex_tools_ann, ex_db_ann))"
    by blast
  from a h3 have bob: "t_user (fst (session_step (Identify ''555-0200'') (ex_tools_ann, ex_db_ann))) =
      Some ex_bob"
    by blast
  from b h4 have none: "t_user (fst (session_step (Identify ''555-0999'') (ex_tools_ann, ex_db_ann))) =
      t_user ex_tools_ann \<and>
      t_chat_ctx (fst (session_step (Identify ''555-0999'') (ex_tools_ann, ex_db_ann))) =
      t_chat_ctx ex_tools_ann \<and>
      snd (session_step (Identify ''555-0999'') (ex_tools_ann, ex_db_ann)) = ex_db_ann"
    by blast
  have same: "session_step (Identify ''555-0999'') (ex_tools_ann, ex_db_ann) = (ex_tools_ann, ex_db_ann)"
    using h4 by (simp add: identify_user_def Let_def e)
  from k h1 h2 have "t_user (fst (run_session ?cs (ex_tools_ann, ex_db_ann))) \<noteq> None \<and>
      ctx_bound (fst (run_session ?cs (ex_tools_ann, ex_db_ann))) \<and>
      list_all2 session_kept (session_memory ex_db_ann)
        (session_memory (snd (run_session ?cs (ex_tools_ann, ex_db_ann))))"
    unfolding binding_kept_def by simp
  with h1 h2 h3 h4 bob same show ?thesis by simp
qed

text \<open>
  Claim C6 as stated fails. In the session \<open>room\<close>, identifying by the number of Ann
  binds Ann; identifying by the number of Bob afterwards binds Bob, on the tools object and
  on the session row; enrolling Cy after Ann binds Cy on the tools object, and the session
  row still has the id of Ann.
\<close>

theorem later_identification_or_enrollment_rebinds:
  "t_user (fst (run_session [Identify ''555-0100''] (ex_tools, ex_db))) = Some ex_ann \<and>
   t_user (fst (run_session [Identify ''555-0100'', Identify ''555-0200''] (ex_tools, ex_db))) =
     Some ex_bob \<and>
   ex_ann \<noteq> ex_bob \<and>
   get_session (snd (run_session [Identify ''555-0100''] (ex_tools, ex_db))) ''room'' =
     Some \<lparr>s_session_id = ''room'', s_user_id = Some ''u1''\<rparr> \<and>
   get_session (snd (run_session [Identify ''555-0100'', Identify ''555-0200''] (ex_tools, ex_db)))
     ''room'' = Some \<lparr>s_session_id = ''room'', s_user_id = Some ''u2''\<rparr> \<and>
   t_user (fst (run_session
      [Identify ''555-0100'',
       Enroll (Some ''u3'') ''555-0300'' ''Cy'' ''Doe'' ''cy@clinic.example''] (ex_tools, ex_db))) =
     Some \<lparr>u_id = ''u3'', u_contact_number = ''555-0300'', u_name = Some ''Cy Doe'',
            u_email = Some ''cy@clinic.example''\<rparr> \<and>
   get_session (snd (run_session
      [Identify ''555-0100'',
       Enroll (Some ''u3'') ''555-0300'' ''Cy'' ''Doe'' ''cy@clinic.example''] (ex_tools, ex_db)))
     ''room'' = Some \<lparr>s_session_id = ''room'', s_user_id = Some ''u1''\<rparr>"
  by (simp add: ex_identify_ann ex_identify_bob ex_enroll_cy)
    (simp add: get_session_def first_row_def ex_tools_ann_def ex_db_ann_def ex_db_def ex_ann_def
      ex_bob_def ex_cy_def)

section \<open>Enrollment\<close>

lemma create_user_account_store:
  "snd (snd (create_user_account t d (Some i) c f l e)) =
     d\<lparr>users := users d @ [\<lparr>u_id = i, u_contact_number = c, u_name = Some (f @ '' '' @ l),
                              u_email = (if e = [] then None else Some e)\<rparr>]\<rparr>"
  by (simp add: create_user_account_def create_user_def Let_def truthy_def)

lemma add_turn_logged:
  assumes "t_chat_ctx t = Some c" and "c_user_id c = Some uid" and "uid \<noteq> []"
  shows "snd (add_turn t d role content) =
     d\<lparr>messages := messages d @ [\<lparr>m_user_id = uid, m_role = role, m_content = content\<rparr>]\<rparr>"
  using assms add_message_effect [of c d role content]
  by (simp add: add_turn_def split_beta)

lemma add_turn_silent:
  assumes "t_chat_ctx t = Some c" and "c_user_id c = None"
  shows "snd (add_turn t d role content) = d"
  using assms add_message_effect [of c d role content]
  by (simp add: add_turn_def split_beta)

lemma add_turn_user: "t_user (fst (add_turn t d role content)) = t_user t"
  by (cases "t_chat_ctx t") (simp_all add: add_turn_def split_beta)

text \<open>
  Claim C7, as the code has it. When the store answers the insert with a row, the row has
  the given contact number and the name made of the first name, a space and the last name;
  \<open>create_user\<close> returns it to the tool, and the tool answers with its welcome message.
  The row is the last of the users table, it is the identified user of the tools object,
  and its id is the user id of the chat context when there is one, so that a turn added
  afterwards is logged under it. When the store answers without a row, the tool answers
  with its failure message, and the store, the identified user and the chat context are as
  before.
\<close>

theorem enrollment_creates_and_binds:
  "fst (create_user d (Some i) contact_number (Some (first_name @ '' '' @ last_name)) (Some email)) =
     Some \<lparr>u_id = i, u_contact_number = contact_number,
            u_name = Some (first_name @ '' '' @ last_name),
            u_email = (if email = [] then None else Some email)\<rparr> \<and>
   fst (create_user_account t d (Some i) contact_number first_name last_name email) =
     ''Account created successfully! Welcome '' @ first_name @ '' '' @ last_name @
     ''. Your information has been securely saved.'' \<and>
   users (snd (snd (create_user_account t d (Some i) contact_number first_name last_name email))) =
     users d @ [\<lparr>u_id = i, u_contact_number = contact_number,
                  u_name = Some (first_name @ '' '' @ last_name),
                  u_email = (if email = [] then None else Some email)\<rparr>] \<and>
   t_user (fst (snd (create_user_account t d (Some i) contact_number first_name last_name email))) =
     Some \<lparr>u_id = i, u_contact_number = contact_number,
            u_name = Some (first_name @ '' '' @ last_name),
            u_email = (if email = [] then None else Some email)\<rparr> \<and>
   t_chat_ctx (fst (snd (create_user_account t d (Some i) contact_number first_name last_name email))) =
     map_option (set_user_id i) (t_chat_ctx t) \<and>
   (i \<noteq> [] \<and> t_chat_ctx t \<noteq> None \<longrightarrow>
      messages (snd (session_step (AddTurn role content)
        (snd (create_user_account t d (Some i) contact_number first_name last_name email)))) =
      messages d @ [\<lparr>m_user_id = i, m_role = role, m_content = content\<rparr>]) \<and>
   fst (create_user_account t d None contact_number first_name last_name email) =
     ''I'm sorry, there was an error creating your account. Please try again.'' \<and>
   snd (snd (create_user_account t d None contact_number first_name last_name email)) = d \<and>
   t_user (fst (snd (create_user_account t d None contact_number first_name last_name email))) =
     t_user t \<and>
   t_chat_ctx (fst (snd (create_user_account t d None contact_number first_name last_name email))) =
     t_chat_ctx t"
proof -
  let ?r = "create_user_account t d (Some i) contact_number first_name last_name email"
  have log: "messages (snd (session_step (AddTurn role content) (snd ?r))) =
      messages d @ [\<lparr>m_user_id = i, m_role = role, m_content = content\<rparr>]"
    if "i \<noteq> []" and "t_chat_ctx t \<noteq> None"
  proof -
    from that(2) obtain c where c: "t_chat_ctx t = Some c" by blast
    have 1: "t_chat_ctx (fst (snd ?r)) = Some (set_user_id i c)"
      using create_user_account_row(2) [of t d i contact_number first_name last_name email] c
      by simp
    have 2: "c_user_id (set_user_id i c) = Some i"
      by (simp add: set_user_id_def)
    have "snd (add_turn (fst (snd ?r)) (snd (snd ?r)) role content) =
        (snd (snd ?r))\<lparr>messages := messages (snd (snd ?r)) @
           [\<lparr>m_user_id = i, m_role = role, m_content = content\<rparr>]\<rparr>"
      using 1 2 that(1) by (rule add_turn_logged)
    moreover have "session_step (AddTurn role content) (snd ?r) =
        add_turn (fst (snd ?r)) (snd (snd ?r)) role content"
      by (cases "snd ?r") simp
    ultimately show ?thesis
      by (simp add: create_user_account_store)
  qed
  have rest: "fst (create_user d (Some i) contact_number (Some (first_name @ '' '' @ last_name))
        (Some email)) =
      Some \<lparr>u_id = i, u_contact_number = contact_number,
            u_name = Some (first_name @ '' '' @ last_name),
            u_email = (if email = [] then None else Some email)\<rparr>"
    "fst ?r = ''Account created successfully! Welcome '' @ first_name @ '' '' @ last_name @
     ''. Your information has been securely saved.''"
    "fst (create_user_account t d None contact_number first_name last_name email) =
     ''I'm sorry, there was an error creating your account. Please try again.''"
    by (simp_all add: create_user_account_def create_user_def Let_def truthy_def)
  show ?thesis
    using log rest
    by (simp add: create_user_account_row create_user_account_no_row create_user_account_store)
qed

theorem enrollment_creates_and_binds_witness:
  "t_user (fst (snd (create_user_account ex_tools ex_db (Some ''u3'') ''555-0300'' ''Cy'' ''Doe''
      ''cy@clinic.example''))) = Some ex_cy \<and>
   t_chat_ctx (fst (snd (create_user_account ex_tools ex_db (Some ''u3'') ''555-0300'' ''Cy'' ''Doe''
      ''cy@clinic.example''))) = Some \<lparr>c_items = [], c_user_id = Some ''u3''\<rparr> \<and>
   users (snd (snd (create_user_account ex_tools ex_db (Some ''u3'') ''555-0300'' ''Cy''
      ''Doe'' ''cy@clinic.example''))) = [ex_ann, ex_bob, ex_cy] \<and>
   ''u3'' \<noteq> [] \<and> t_chat_ctx ex_tools \<noteq> None \<and>
   messages (snd (session_step (AddTurn ''user'' ''hello'')
     (snd (create_user_account ex_tools ex_db (Some ''u3'') ''555-0300'' ''Cy'' ''Doe''
        ''cy@clinic.example'')))) = [\<lparr>m_user_id = ''u3'', m_role = ''user'', m_content = ''hello''\<rparr>]"
proof -
  have h: "''u3'' \<noteq> [] \<and> t_chat_ctx ex_tools \<noteq> None"
    by (simp add: ex_tools_def new_agent_tools_def)
  have m: "messages ex_db = []" "users ex_db = [ex_ann, ex_bob]"
    by (simp_all add: ex_db_def)
  from h m enrollment_creates_and_binds [of ex_db "''u3''" "''555-0300''" "''Cy''" "''Doe''"
      "''cy@clinic.example''" ex_tools "''user''" "''hello''"]
  show ?thesis
    by (simp add: ex_tools_def new_agent_tools_def new_chat_context_def set_user_id_def ex_cy_def)
qed

text \<open>
  Claim C7 as stated fails. An enrollment that the store answers without a row creates no
  user and binds none. An enrollment that the store answers with a row is answered by the
  tool with the welcome text, not with the user, and it sets the user on the tools object
  while the row of the session keeps no user id; an identification sets the id on that row.
\<close>

theorem enrollment_without_row_or_session_binding:
  "users (snd (snd (create_user_account ex_tools ex_db None ''555-0300'' ''Cy'' ''Doe''
      ''cy@clinic.example''))) = users ex_db \<and>
   t_user (fst (snd (create_user_account ex_tools ex_db None ''555-0300'' ''Cy'' ''Doe''
      ''cy@clinic.example''))) = None \<and>
   t_chat_ctx (fst (snd (create_user_account ex_tools ex_db None ''555-0300'' ''Cy'' ''Doe''
      ''cy@clinic.example''))) = Some \<lparr>c_items = [], c_user_id = None\<rparr> \<and>
   fst (create_user_account ex_tools ex_db (Some ''u3'') ''555-0300'' ''Cy'' ''Doe''
      ''cy@clinic.example'') =
     ''Account created successfully! Welcome Cy Doe. Your information has been securely saved.'' \<and>
   t_user (fst (snd (create_user_account ex_tools ex_db (Some ''u3'') ''555-0300'' ''Cy'' ''Doe''
      ''cy@clinic.example''))) = Some ex_cy \<and>
   get_session (snd (snd (create_user_account ex_tools ex_db (Some ''u3'') ''555-0300'' ''Cy'' ''Doe''
      ''cy@clinic.example''))) ''room'' = Some \<lparr>s_session_id = ''room'', s_user_id = None\<rparr> \<and>
   get_session (snd (snd (identify_user ex_tools ex_db ''555-0100''))) ''room'' =
     Some \<lparr>s_session_id = ''room'', s_user_id = Some ''u1''\<rparr>"
proof -
  have a: "get_session (snd (snd (identify_user ex_tools ex_db ''555-0100''))) ''room'' =
     Some \<lparr>s_session_id = ''room'', s_user_id = Some ''u1''\<rparr>"
    by (simp add: ex_identify_ann) (simp add: get_session_def first_row_def ex_db_ann_def ex_db_def)
  have b: "create_user_account ex_tools ex_db None ''555-0300'' ''Cy'' ''Doe''
      ''cy@clinic.example'' =
      (''I'm sorry, there was an error creating your account. Please try again.'', ex_tools, ex_db)"
    by (simp add: create_user_account_def create_user_def Let_def emit_event_def ex_tools_def
        new_agent_tools_def)
  have c: "create_user_account ex_tools ex_db (Some ''u3'') ''555-0300'' ''Cy'' ''Doe''
      ''cy@clinic.example'' =
      (''Account created successfully! Welcome Cy Doe. Your information has been securely saved.'',
       ex_tools\<lparr>t_user := Some ex_cy,
                t_chat_ctx := Some \<lparr>c_items = [], c_user_id = Some ''u3''\<rparr>\<rparr>,
       ex_db\<lparr>users := [ex_ann, ex_bob, ex_cy]\<rparr>)"
    by (simp add: create_user_account_def create_user_def truthy_def tag_chat_ctx_def
        set_user_id_def emit_event_def Let_def ex_db_def ex_tools_def new_agent_tools_def
        new_chat_context_def ex_cy_def)
  show ?thesis
    unfolding a b c
    by (simp add: get_session_def first_row_def ex_db_def ex_tools_def new_agent_tools_def
        new_chat_context_def)
qed

section \<open>Logging of chat turns\<close>

lemma ex_start:
  "start_session False ''room'' ''You are a helpful assistant'' ex_db = (ex_tools_started, ex_db)"
  by (simp add: start_session_def create_session_def add_message_def truthy_def Let_def
      new_chat_context_def ex_tools_started_def ex_tools_def new_agent_tools_def ex_db_def)

lemma ex_started_identify_ann:
  "identify_user ex_tools_started ex_db ''555-0100'' =
     (''User identified: Ann Lee (ID: u1).'',
      ex_tools_started\<lparr>t_user := Some ex_ann,
        t_chat_ctx := Some \<lparr>c_items = [(''system'', ''You are a helpful assistant'')],
                             c_user_id = Some ''u1''\<rparr>\<rparr>, ex_db_ann)"
  by (simp add: identify_user_def get_user_by_contact_or_email_def get_user_by_contact_def
      first_row_def update_session_user_def bind_row_def tag_chat_ctx_def set_user_id_def
      emit_event_def fmt_opt_def Let_def ex_rows ex_tools_started_def ex_tool_defs ex_db_ann_def)

text \<open>
  Claim C9. Take any state that a session reaches from its start by calls of the tools and
  turns of the conversation. The system message that opens the session leaves the messages
  table as it was. A turn added while no user is identified leaves the store as it is. A
  turn added once a user is identified (ids that the store gives are not empty) appends
  one message row with the id of that user, the role and the content, and changes nothing
  else. So the messages table changes exactly when a user is identified. Adding a turn
  does not change who is identified.
\<close>

theorem turns_logged_once_identified:
  assumes "run_session cs (start_session room session_id system_instructions d0) = (t, d)"
  shows "messages (snd (start_session room session_id system_instructions d0)) = messages d0 \<and>
         (t_user t = None \<longrightarrow> snd (session_step (AddTurn role content) (t, d)) = d) \<and>
         (\<forall>u. t_user t = Some u \<and> u_id u \<noteq> [] \<longrightarrow>
            snd (session_step (AddTurn role content) (t, d)) =
              d\<lparr>messages := messages d @
                   [\<lparr>m_user_id = u_id u, m_role = role, m_content = content\<rparr>]\<rparr>) \<and>
         ((\<forall>u. t_user t = Some u \<longrightarrow> u_id u \<noteq> []) \<longrightarrow>
            (messages (snd (session_step (AddTurn role content) (t, d))) \<noteq> messages d \<longleftrightarrow>
             t_user t \<noteq> None)) \<and>
         t_user (fst (session_step (AddTurn role content) (t, d))) = t_user t"
proof -
  have "ctx_follows_user (fst (run_session cs (start_session room session_id system_instructions d0)))"
    by (rule run_session_follows) (rule start_session_follows)
  with assms have f: "ctx_follows_user t" by simp
  then obtain c where c: "t_chat_ctx t = Some c" "c_user_id c = map_option u_id (t_user t)"
    by (cases "t_chat_ctx t") (simp_all add: ctx_follows_user_def)
  have silent: "snd (add_turn t d role content) = d" if "t_user t = None"
    using c that by (simp add: add_turn_silent)
  have logged: "snd (add_turn t d role content) =
      d\<lparr>messages := messages d @ [\<lparr>m_user_id = u_id u, m_role = role, m_content = content\<rparr>]\<rparr>"
    if "t_user t = Some u" and "u_id u \<noteq> []" for u
    using c that by (simp add: add_turn_logged)
  show ?thesis
  proof (cases "t_user t")
    case None
    with silent show ?thesis
      by (simp add: start_session_messages add_turn_user)
  next
    case (Some u)
    with logged [of u] show ?thesis
      by (auto simp: start_session_messages add_turn_user)
  qed
qed

theorem turns_logged_once_identified_witness:
  "run_session [] (start_session False ''room'' ''You are a helpful assistant'' ex_db) =
     (ex_tools_started, ex_db) \<and>
   t_user ex_tools_started = None \<and>
   snd (session_step (AddTurn ''user'' ''hello'') (ex_tools_started, ex_db)) = ex_db \<and>
   t_user (fst (run_session [Identify ''555-0100'']
     (start_session False ''room'' ''You are a helpful assistant'' ex_db))) = Some ex_ann \<and>
   u_id ex_ann \<noteq> [] \<and>
   messages (snd (session_step (AddTurn ''user'' ''hello'')
     (run_session [Identify ''555-0100'']
        (start_session False ''room'' ''You are a helpful assistant'' ex_db)))) =
     [\<lparr>m_user_id = ''u1'', m_role = ''user'', m_content = ''hello''\<rparr>]"
proof -
  let ?t = "ex_tools_started\<lparr>t_user := Some ex_ann,
        t_chat_ctx := Some \<lparr>c_items = [(''system'', ''You are a helpful assistant'')],
                             c_user_id = Some ''u1''\<rparr>\<rparr>"
  have r0: "run_session [] (start_session False ''room'' ''You are a helpful assistant'' ex_db) =
      (ex_tools_started, ex_db)"
    by (simp add: ex_start)
  have r1: "run_session [Identify ''555-0100'']
      (start_session False ''room'' ''You are a helpful assistant'' ex_db) = (?t, ex_db_ann)"
    by (simp add: ex_start ex_started_identify_ann)
  have h0: "t_user ex_tools_started = None"
    by (simp add: ex_tools_started_def ex_tools_def new_agent_tools_def)
  have h1: "t_user ?t = Some ex_ann \<and> u_id ex_ann \<noteq> []"
    by (simp add: ex_ann_def)
  have m: "messages ex_db_ann = []"
    by (simp add: ex_db_ann_def ex_db_def)
  from h0 turns_logged_once_identified [OF r0, of "''user''" "''hello''"]
  have a: "snd (session_step (AddTurn ''user'' ''hello'') (ex_tools_started, ex_db)) = ex_db"
    by blast
  from h1 turns_logged_once_identified [OF r1, of "''user''" "''hello''"]
  have b: "snd (session_step (AddTurn ''user'' ''hello'') (?t, ex_db_ann)) =
      ex_db_ann\<lparr>messages := messages ex_db_ann @
        [\<lparr>m_user_id = u_id ex_ann, m_role = ''user'', m_content = ''hello''\<rparr>]\<rparr>"
    by blast
  from r0 h0 a h1 b m show ?thesis
    unfolding r1 by (simp add: ex_ann_def)
qed

section \<open>The avatar stage and the greeting\<close>

lemma seq_simps [simp]:
  "seq (as, None) r = (as @ fst r, snd r)"
  "seq (as, Some e) r = (as, Some e)"
  by (simp_all add: seq_def)

lemma wait_for_bound: "snd (wait_for r) \<le> avatar_timeout"
  by (cases r) (auto simp: wait_for_def split: exn.splits)

lemma avatar_stage_cases:
  "fst (wait_for r) = Started \<and>
     avatar_stage r =
       (([AvatarWait (snd (wait_for r)), Broadcast ''avatar'' ''ready'', Sleep 2], None), True) \<or>
   fst (wait_for r) = TimedOut \<and>
     avatar_stage r =
       (([AvatarWait (snd (wait_for r)), Broadcast ''avatar'' ''unavailable''], None), False) \<or>
   fst (wait_for r) = Failed \<and>
     avatar_stage r =
       (([AvatarWait (snd (wait_for r)), Broadcast ''avatar'' ''error''], None), False) \<or>
   fst (wait_for r) = Cancelled \<and>
     avatar_stage r = (([AvatarWait (snd (wait_for r))], Some CancelledError), False)"
  by (cases "wait_for r"; cases "fst (wait_for r)") (auto simp: avatar_stage_def)

text \<open>
  When every stage before the avatar returns, the avatar session object is made,
  \<open>avatar.start\<close> is not cancelled and the greeting can be said, the run reaches the point
  where it listens: the wait for the avatar lasts at most 20 units, exactly one status ends
  the avatar stage (ready when \<open>avatar.start\<close> returned in time, unavailable on a
  timeout, error on another exception), and the greeting is the last action, said once,
  after the start of the agent session and after that status.
\<close>

lemma avatar_start_failure_degrades:
  assumes "e_stt env = None" and "e_llm env = None" and "e_tts env = None"
    and "e_probe env \<noteq> Some CancelledError" and "e_vad env = None"
    and "e_session_start env = None" and "e_avatar_new env = None" and "e_say env = None"
    and "fst (wait_for (e_avatar_start env)) \<noteq> Cancelled" and "e_agent env = None"
  shows "snd (entrypoint env) = None \<and>
         last (fst (entrypoint env)) = Say greeting \<and>
         length (filter is_say (fst (entrypoint env))) = 1 \<and>
         before is_session_start is_say (fst (entrypoint env)) \<and>
         before avatar_resolved is_say (fst (entrypoint env)) \<and>
         (\<forall>n. AvatarWait n \<in> set (fst (entrypoint env)) \<longrightarrow> n \<le> 20) \<and>
         filter avatar_resolved (fst (entrypoint env)) =
           [Broadcast ''avatar''
              (case fst (wait_for (e_avatar_start env)) of
                 Started \<Rightarrow> ''ready'' | TimedOut \<Rightarrow> ''unavailable'' | _ \<Rightarrow> ''error'')]"
proof -
  have b: "snd (wait_for (e_avatar_start env)) \<le> 20"
    using wait_for_bound [of "e_avatar_start env"] by (simp add: avatar_timeout_def)
  have p: "probe_stage (e_probe env) = ([Probe, Broadcast ''database'' ''ready''], None) \<or>
      probe_stage (e_probe env) = ([Broadcast ''database'' ''error''], None)"
    using assms(4) by (cases "e_probe env") (auto simp: probe_stage_def split: exn.splits)
  from avatar_stage_cases [of "e_avatar_start env"] assms(9) p b show ?thesis
    by (elim disjE conjE)
      (simp_all add: entrypoint_def assms act_def call_def is_say_def is_session_start_def
        avatar_resolved_def)
qed

text \<open>
  Claim C8 says that a failure of the avatar never ends the call. The avatar session
  object is made outside the \<open>try\<close> that guards \<open>avatar.start\<close>: when making it raises,
  with every other collaborator returning, the run ends with that exception after the
  status avatar initializing, with no status that ends the avatar stage and no greeting.
  With the same collaborators and the object made, the run ends in the greeting.
\<close>

theorem avatar_constructor_failure_ends_run:
  "entrypoint (ex_env\<lparr>e_avatar_new := Some OtherError\<rparr>) =
     ([Broadcast ''stt'' ''initializing'', Init ''stt'', Broadcast ''stt'' ''ready'',
       Broadcast ''llm'' ''initializing'', Init ''llm'', Broadcast ''llm'' ''ready'',
       Broadcast ''tts'' ''initializing'', Init ''tts'', Broadcast ''tts'' ''ready'',
       Broadcast ''database'' ''initializing'', Probe, Broadcast ''database'' ''ready'',
       Init ''vad'', Init ''agent'', SessionStart, Sleep 1,
       Broadcast ''avatar'' ''initializing''],
      Some OtherError) \<and>
   \<not> list_ex is_say (fst (entrypoint (ex_env\<lparr>e_avatar_new := Some OtherError\<rparr>))) \<and>
   \<not> list_ex avatar_resolved (fst (entrypoint (ex_env\<lparr>e_avatar_new := Some OtherError\<rparr>))) \<and>
   snd (entrypoint ex_env) = None \<and>
   last (fst (entrypoint ex_env)) = Say greeting"
  by (simp add: entrypoint_def ex_env_def avatar_stage_def wait_for_def avatar_timeout_def
      probe_stage_def act_def call_def is_say_def avatar_resolved_def)

end
